theory Spec2Isabelle
  imports Main
begin

section \<open>JavaScript values, errors and the Node library\<close>

text \<open>
  A thrown value is either a \<open>NodeJS.ErrnoException\<close>, of which only the \<open>code\<close> is
  ever inspected, or any other thrown value (a \<open>SyntaxError\<close> of \<open>JSON.parse\<close>, a
  \<open>TypeError\<close>, the string a promise is rejected with), which has no \<open>code\<close>.
  A function whose body can throw (or whose promise can reject) returns
  \<open>js_error + 'a\<close>, with \<open>Inl\<close> for the throw.
\<close>

datatype js_error = Errno string | Thrown string

text \<open>
  The values \<open>JSON.parse\<close> and the ESLint API hand back. Of a number only whether it
  is zero is ever inspected (truthiness), so numbers are integers here.
\<close>

datatype jsval =
    JUndefined
  | JNull
  | JBool bool
  | JNum int
  | JStr string
  | JArr "jsval list"
  | JObj "(string \<times> jsval) list"

text \<open>\<open>if (v)\<close>, \<open>v || w\<close>: JavaScript truthiness.\<close>

fun truthy :: "jsval \<Rightarrow> bool" where
  "truthy JUndefined = False"
| "truthy JNull = False"
| "truthy (JBool b) = b"
| "truthy (JNum n) = (n \<noteq> 0)"
| "truthy (JStr s) = (s \<noteq> [])"
| "truthy (JArr xs) = True"
| "truthy (JObj kvs) = True"

text \<open>
  \<open>v.k\<close> for the two keys the code reads (\<open>rules\<close>, \<open>eslintConfig\<close>): a
  \<open>TypeError\<close> on \<open>undefined\<close> and \<open>null\<close>, the member of an object, and
  \<open>undefined\<close> on every other value (no primitive wrapper and no array has either key).
\<close>

fun get_prop :: "jsval \<Rightarrow> string \<Rightarrow> js_error + jsval" where
  "get_prop JUndefined k = Inl (Thrown ''TypeError'')"
| "get_prop JNull k = Inl (Thrown ''TypeError'')"
| "get_prop (JObj kvs) k = Inr (case map_of kvs k of None \<Rightarrow> JUndefined | Some v \<Rightarrow> v)"
| "get_prop v k = Inr JUndefined"

text \<open>\<open>v?.k\<close>: optional chaining gives \<open>undefined\<close> on \<open>undefined\<close> and \<open>null\<close>.\<close>

definition opt_prop :: "jsval \<Rightarrow> string \<Rightarrow> jsval" where
  "opt_prop v k = (case get_prop v k of Inl e \<Rightarrow> JUndefined | Inr x \<Rightarrow> x)"

text \<open>The functions of Node's \<open>path\<close> module that the code calls, as parameters.\<close>

record node_path =
  path_join :: "string \<Rightarrow> string \<Rightarrow> string"
  path_basename :: "string \<Rightarrow> string"
  path_resolve :: "string \<Rightarrow> string \<Rightarrow> string"
  path_posix_join :: "string \<Rightarrow> string"

section \<open>Linter configuration: the environment\<close>

text \<open>
  How a spawned child process ends: an \<open>error\<close> event (the process could not be
  spawned), or a \<open>close\<close> event with the exit code (\<open>null\<close>, here \<open>None\<close>, when a signal
  ended the process) after the given standard output.
\<close>

datatype proc_outcome = ProcError js_error | ProcClose "int option" string

text \<open>
  What the two resolvers read from outside: the host's workspace folders
  (\<open>vscode.workspace.workspaceFolders\<close>, \<open>undefined\<close> when no folder is open, as the
  list of their \<open>uri.fsPath\<close>), the helper \<open>getWorkspacePath\<close> of \<open>utils/path\<close>,
  \<open>fs.existsSync\<close>, \<open>fs.readFileSync\<close>, \<open>JSON.parse\<close>, the in-process engine
  (\<open>new ESLint({cwd}).calculateConfigForFile(file)\<close>, by \<open>cwd\<close> and file) and
  \<open>child_process.spawn\<close> (by command, arguments and working directory).
\<close>

record lint_env = node_path +
  workspaceFolders :: "string list option"
  getWorkspacePath :: "string \<Rightarrow> string"
  existsSync :: "string \<Rightarrow> bool"
  readFileSync :: "string \<Rightarrow> js_error + string"
  JSON_parse :: "string \<Rightarrow> js_error + jsval"
  calculateConfigForFile :: "string \<Rightarrow> string \<Rightarrow> js_error + jsval"
  spawn :: "string \<Rightarrow> string list \<Rightarrow> string \<Rightarrow> proc_outcome"

section \<open>Linter configuration through the in-process engine (gen-eslint-rules.ts)\<close>

definition getESLintConfigPaths :: "'a lint_env_scheme \<Rightarrow> string \<Rightarrow> string list" where
  "getESLintConfigPaths env workspacePath =
     map (\<lambda>filename. path_join env workspacePath filename)
       [''.eslintrc'', ''.eslintrc.js'', ''.eslintrc.json'', ''.eslintrc.yaml'',
        ''.eslintrc.yml'', ''package.json'']"

text \<open>\<open>packageJson.eslintConfig || null\<close>, everything inside \<open>try\<close>/\<open>catch\<close>.\<close>

definition getESLintConfigFromPackageJson :: "'a lint_env_scheme \<Rightarrow> string \<Rightarrow> js_error + jsval" where
  "getESLintConfigFromPackageJson env packageJsonPath =
     (case
        (case readFileSync env packageJsonPath of
           Inl e \<Rightarrow> Inl e
         | Inr content \<Rightarrow>
            (case JSON_parse env content of
               Inl e \<Rightarrow> Inl e
             | Inr packageJson \<Rightarrow>
                (case get_prop packageJson ''eslintConfig'' of
                   Inl e \<Rightarrow> Inl e
                 | Inr c \<Rightarrow> Inr (if truthy c then c else JNull))))
      of Inl e \<Rightarrow> Inr JNull
       | Inr v \<Rightarrow> Inr v)"

definition parseESLintConfig :: "'a lint_env_scheme \<Rightarrow> string \<Rightarrow> js_error + jsval" where
  "parseESLintConfig env configPath =
     (case
        (if \<not> existsSync env configPath then Inr JNull
         else if path_basename env configPath = ''package.json''
           then getESLintConfigFromPackageJson env configPath
         else (case readFileSync env configPath of
                 Inl e \<Rightarrow> Inl e
               | Inr content \<Rightarrow> JSON_parse env content))
      of Inl e \<Rightarrow> Inr JNull
       | Inr v \<Rightarrow> Inr v)"

text \<open>
  The constructor and \<open>calculateConfigForFile("dummy.ts")\<close> are one outcome of the
  environment; whatever is thrown is logged and becomes \<open>null\<close>.
\<close>

definition getFullESLintConfig :: "'a lint_env_scheme \<Rightarrow> string \<Rightarrow> js_error + jsval" where
  "getFullESLintConfig env workspacePath =
     (case calculateConfigForFile env workspacePath ''dummy.ts'' of
        Inl e \<Rightarrow> Inr JNull
      | Inr config \<Rightarrow> Inr config)"

text \<open>The \<open>for\<close> loop of \<open>getWorkspaceESLintRules\<close> over the candidate paths.\<close>

fun scanConfigPaths :: "'a lint_env_scheme \<Rightarrow> string list \<Rightarrow> js_error + jsval" where
  "scanConfigPaths env [] = Inr JNull"
| "scanConfigPaths env (configPath # rest) =
     (case parseESLintConfig env configPath of
        Inl e \<Rightarrow> Inl e
      | Inr config \<Rightarrow>
          if truthy (opt_prop config ''rules'') then Inr (opt_prop config ''rules'')
          else scanConfigPaths env rest)"

text \<open>\<open>workspaceFolders?.map((folder) => folder.uri.fsPath).at(0)\<close>\<close>

definition firstWorkspacePath :: "'a lint_env_scheme \<Rightarrow> string option" where
  "firstWorkspacePath env =
     (case workspaceFolders env of
        None \<Rightarrow> None
      | Some [] \<Rightarrow> None
      | Some (p # ps) \<Rightarrow> Some p)"

definition getWorkspaceESLintRules :: "'a lint_env_scheme \<Rightarrow> js_error + jsval" where
  "getWorkspaceESLintRules env =
     (case firstWorkspacePath env of
        None \<Rightarrow> Inr JNull
      | Some workspacePath \<Rightarrow>
          if workspacePath \<noteq> [] then
            (case getFullESLintConfig env workspacePath of
               Inl e \<Rightarrow> Inl e
             | Inr fullConfig \<Rightarrow>
                 if truthy (opt_prop fullConfig ''rules'')
                 then Inr (opt_prop fullConfig ''rules'')
                 else scanConfigPaths env (getESLintConfigPaths env workspacePath))
          else Inr JNull)"

text \<open>\<open>config?.rules\<close> of the candidate file at a path, as the loop reads it.\<close>

definition configRules :: "'a lint_env_scheme \<Rightarrow> string \<Rightarrow> jsval" where
  "configRules env configPath =
     (case parseESLintConfig env configPath of
        Inl e \<Rightarrow> JUndefined
      | Inr config \<Rightarrow> opt_prop config ''rules'')"

section \<open>Linter configuration through a sub-process (the second resolver)\<close>

text \<open>\<open>Number(code)\<close> on \<open>number | null\<close>: \<open>Number(null)\<close> is \<open>0\<close>.\<close>

definition Number_of_code :: "int option \<Rightarrow> int" where
  "Number_of_code code = (case code of None \<Rightarrow> 0 | Some n \<Rightarrow> n)"

fun digits_of :: "nat \<Rightarrow> string" where
  "digits_of n =
     (if n < 10 then [char_of (48 + n)]
      else digits_of (n div 10) @ [char_of (48 + n mod 10)])"

text \<open>The exit code inside the template literal.\<close>

definition show_code :: "int option \<Rightarrow> string" where
  "show_code code =
     (case code of
        None \<Rightarrow> ''null''
      | Some n \<Rightarrow> if n < 0 then ''-'' @ digits_of (nat (- n)) else digits_of (nat n))"

text \<open>
  The promise of \<open>runCommand\<close>: resolved with the collected standard output when the
  child closes with code 0 or 1, rejected otherwise and on the \<open>error\<close> event.
\<close>

definition runCommand :: "'a lint_env_scheme \<Rightarrow> string \<Rightarrow> string list \<Rightarrow> string \<Rightarrow> js_error + string" where
  "runCommand env command options projectFolder =
     (case spawn env command options projectFolder of
        ProcClose code output \<Rightarrow>
          if Number_of_code code = 0 \<or> Number_of_code code = 1 then Inr output
          else Inl (Thrown (''child process exited with code '' @ show_code code))
      | ProcError err \<Rightarrow> Inl err)"

definition getESLintConfigPaths_sub :: "'a lint_env_scheme \<Rightarrow> string \<Rightarrow> string list" where
  "getESLintConfigPaths_sub env workspacePath =
     map (\<lambda>filename. path_join env workspacePath filename)
       [''.eslintrc'', ''.eslintrc.js'', ''.eslintrc.json'', ''.eslintrc.yaml'',
        ''.eslintrc.yml'']"

definition getFullESLintConfig_sub :: "'a lint_env_scheme \<Rightarrow> string \<Rightarrow> string \<Rightarrow> js_error + jsval" where
  "getFullESLintConfig_sub env workspacePath filePath =
     (case
        (case runCommand env ''npx'' [''eslint'', ''--print-config'', filePath] workspacePath of
           Inl e \<Rightarrow> Inl e
         | Inr result \<Rightarrow> JSON_parse env result)
      of Inl e \<Rightarrow> Inr JNull
       | Inr config \<Rightarrow> Inr config)"

text \<open>The first candidate path that exists, or \<open>null\<close> (\<open>None\<close>).\<close>

definition getConfigPath :: "'a lint_env_scheme \<Rightarrow> string \<Rightarrow> string option" where
  "getConfigPath env workspacePath =
     List.find (existsSync env) (getESLintConfigPaths_sub env workspacePath)"

definition getWorkspaceESLintRules_sub :: "'a lint_env_scheme \<Rightarrow> string \<Rightarrow> js_error + jsval" where
  "getWorkspaceESLintRules_sub env defaultCwdPath =
     (let workspacePath = getWorkspacePath env defaultCwdPath in
      case getConfigPath env workspacePath of
        None \<Rightarrow> Inr JNull
      | Some configPath \<Rightarrow>
          if configPath = [] then Inr JNull
          else
            (case getFullESLintConfig_sub env workspacePath configPath of
               Inl e \<Rightarrow> Inl e
             | Inr fullConfig \<Rightarrow> if truthy fullConfig then Inr fullConfig else Inr JNull))"

section \<open>Custom instructions (sections/custom-instructions.ts)\<close>

text \<open>
  A string is the list of the bytes of its UTF-8 encoding (what \<open>fs.readFile(file,
  "utf8")\<close> decodes). The white space that \<open>String.prototype.trim\<close> removes is the
  ECMAScript \<open>WhiteSpace\<close> and \<open>LineTerminator\<close> code points, here by their
  encodings: U+0009 to U+000D, U+0020, U+00A0, U+1680, U+2000 to U+200A, U+2028,
  U+2029, U+202F, U+205F, U+3000 and U+FEFF.
\<close>

definition white_space :: "string list" where
  "white_space =
     [[CHR 0x09], [CHR 0x0A], [CHR 0x0B], [CHR 0x0C], [CHR 0x0D], [CHR 0x20],
      [CHR 0xC2, CHR 0xA0],
      [CHR 0xE1, CHR 0x9A, CHR 0x80],
      [CHR 0xE2, CHR 0x80, CHR 0x80], [CHR 0xE2, CHR 0x80, CHR 0x81],
      [CHR 0xE2, CHR 0x80, CHR 0x82], [CHR 0xE2, CHR 0x80, CHR 0x83],
      [CHR 0xE2, CHR 0x80, CHR 0x84], [CHR 0xE2, CHR 0x80, CHR 0x85],
      [CHR 0xE2, CHR 0x80, CHR 0x86], [CHR 0xE2, CHR 0x80, CHR 0x87],
      [CHR 0xE2, CHR 0x80, CHR 0x88], [CHR 0xE2, CHR 0x80, CHR 0x89],
      [CHR 0xE2, CHR 0x80, CHR 0x8A],
      [CHR 0xE2, CHR 0x80, CHR 0xA8], [CHR 0xE2, CHR 0x80, CHR 0xA9],
      [CHR 0xE2, CHR 0x80, CHR 0xAF],
      [CHR 0xE2, CHR 0x81, CHR 0x9F],
      [CHR 0xE3, CHR 0x80, CHR 0x80],
      [CHR 0xEF, CHR 0xBB, CHR 0xBF]]"

text \<open>The length of the first of the given sequences that the string starts with, or 0.\<close>

definition match_len :: "string list \<Rightarrow> string \<Rightarrow> nat" where
  "match_len seqs s =
     (case List.find (\<lambda>w. w \<noteq> [] \<and> take (length w) s = w) seqs of
        None \<Rightarrow> 0
      | Some w \<Rightarrow> length w)"

function strip_leading :: "string list \<Rightarrow> string \<Rightarrow> string" where
  "strip_leading seqs s =
     (if match_len seqs s = 0 then s else strip_leading seqs (drop (match_len seqs s) s))"
  by pat_completeness auto
termination
proof (relation "measure (\<lambda>(seqs, s). length s)")
  show "wf (measure (\<lambda>(seqs, s). length s))" by simp
next
  fix seqs :: "string list" and s :: string
  assume pos: "match_len seqs s \<noteq> 0"
  then obtain w where "List.find (\<lambda>w. w \<noteq> [] \<and> take (length w) s = w) seqs = Some w"
    by (auto simp: match_len_def split: option.splits)
  then have "w \<noteq> []" and "take (length w) s = w"
    by (auto simp: find_Some_iff)
  then have "s \<noteq> []" by auto
  with pos show "((seqs, drop (match_len seqs s) s), (seqs, s)) \<in> measure (\<lambda>(seqs, s). length s)"
    by simp
qed

declare strip_leading.simps [simp del]

text \<open>
  \<open>String.prototype.trim\<close>: the white space at the start is stripped, then, read
  backwards, the white space at the end.
\<close>

definition trim :: "string \<Rightarrow> string" where
  "trim s = rev (strip_leading (map rev white_space) (rev (strip_leading white_space s)))"

text \<open>\<open>Array.prototype.join\<close>\<close>

fun js_join :: "string \<Rightarrow> string list \<Rightarrow> string" where
  "js_join sep [] = []"
| "js_join sep [x] = x"
| "js_join sep (x # y # ys) = x @ sep @ js_join sep (y # ys)"

text \<open>
  An \<open>fs.Dirent\<close> of \<open>readdir\<close> with \<open>withFileTypes\<close>: \<open>name\<close> is the entry's base
  name, \<open>parentPath\<close> the directory that holds it (with \<open>recursive\<close>, a directory
  below the one that was read), \<open>isFile()\<close> whether it is a regular file.
\<close>

record Dirent =
  dirent_name :: string
  dirent_parentPath :: string
  dirent_isFile :: bool

text \<open>
  What the aggregator reads from outside: \<open>fileExistsAtPath\<close> and \<open>isDirectory\<close> of
  \<open>utils/fs\<close>, \<open>fs.readdir(dir, {withFileTypes: true, recursive: true})\<close>,
  \<open>fs.readFile(file, "utf8")\<close>, and the table \<open>LANGUAGES\<close> of \<open>shared/language\<close>.
\<close>

record instr_env = node_path +
  fileExistsAtPath :: "string \<Rightarrow> js_error + bool"
  isDirectory :: "string \<Rightarrow> js_error + bool"
  readdir :: "string \<Rightarrow> js_error + Dirent list"
  readFile :: "string \<Rightarrow> js_error + string"
  LANGUAGES :: "string \<Rightarrow> string option"

record instr_options =
  language :: "string option"
  rooIgnoreInstructions :: "string option"

text \<open>
  \<open>Promise.all(ruleFiles.map(async (file) => ...))\<close>: every block, or a rejection
  (whose value the caller discards).
\<close>

fun readRuleFiles :: "'a instr_env_scheme \<Rightarrow> string \<Rightarrow> string list \<Rightarrow> js_error + string list" where
  "readRuleFiles env filePath [] = Inr []"
| "readRuleFiles env filePath (file # files) =
     (let ruleFilePathRelative = path_resolve env filePath file in
      case readFile env ruleFilePathRelative of
        Inl e \<Rightarrow> Inl e
      | Inr content \<Rightarrow>
         (case readRuleFiles env filePath files of
            Inl e \<Rightarrow> Inl e
          | Inr blocks \<Rightarrow> Inr ((ruleFilePathRelative @ '':\<newline>'' @ trim content) # blocks)))"

text \<open>The inner \<open>try\<close> block of \<open>safeReadFile\<close>, for a directory.\<close>

definition readRulesDirectory :: "'a instr_env_scheme \<Rightarrow> string \<Rightarrow> string \<Rightarrow> string \<Rightarrow> js_error + string" where
  "readRulesDirectory env file cwd filePath =
     (case readdir env filePath of
        Inl e \<Rightarrow> Inl e
      | Inr files \<Rightarrow>
         (let ruleFiles = map (\<lambda>f. path_resolve env filePath (dirent_name f)) (filter dirent_isFile files) in
          case readRuleFiles env filePath ruleFiles of
            Inl e \<Rightarrow> Inl e
          | Inr contents \<Rightarrow>
             (let ruleFileContent = js_join ''\<newline>\<newline>'' contents in
              Inr (''# '' @ file @ ''/\<newline>\<newline>The following is provided by a root-level '' @ file
                   @ ''/ directory where the user has specified instructions for this working directory (''
                   @ path_posix_join env cwd @ '')\<newline>\<newline>'' @ ruleFileContent))))"

text \<open>The outer \<open>catch\<close> of \<open>safeReadFile\<close>.\<close>

definition rethrowUnlessAbsent :: "js_error \<Rightarrow> js_error + string" where
  "rethrowUnlessAbsent err =
     (case err of
        Errno errorCode \<Rightarrow>
          if errorCode = [] \<or> errorCode \<notin> set [''ENOENT'', ''EISDIR''] then Inl err else Inr []
      | Thrown v \<Rightarrow> Inl err)"

definition safeReadFile :: "'a instr_env_scheme \<Rightarrow> string \<Rightarrow> string \<Rightarrow> js_error + string" where
  "safeReadFile env file cwd =
     (let filePath = path_join env cwd file in
      case
        (case fileExistsAtPath env filePath of
           Inl e \<Rightarrow> Inl e
         | Inr ex \<Rightarrow>
            if ex then
              (case isDirectory env filePath of
                 Inl e \<Rightarrow> Inl e
               | Inr isDir \<Rightarrow>
                  if isDir then
                    (case readRulesDirectory env file cwd filePath of
                       Inl e \<Rightarrow> Inr []
                     | Inr clineRulesFileInstructions \<Rightarrow> Inr clineRulesFileInstructions)
                  else
                    (case readFile env filePath of
                       Inl e \<Rightarrow> Inl e
                     | Inr content \<Rightarrow>
                        (let ruleFileContent = trim content in
                         if ruleFileContent \<noteq> [] then
                           Inr (''# '' @ file @ ''\<newline>\<newline>The following is provided by a root-level '' @ file
                                @ '' file where the user has specified instructions for this working directory (''
                                @ path_posix_join env cwd @ '')\<newline>\<newline>'' @ ruleFileContent)
                         else Inr [])))
            else Inr [])
      of Inl err \<Rightarrow> rethrowUnlessAbsent err
       | Inr v \<Rightarrow> Inr v)"

text \<open>The \<open>for\<close> loop of \<open>loadRuleFiles\<close>, with \<open>combinedRules\<close> as accumulator.\<close>

fun combineRuleFiles :: "'a instr_env_scheme \<Rightarrow> string \<Rightarrow> string list \<Rightarrow> string \<Rightarrow> js_error + string" where
  "combineRuleFiles env cwd [] combinedRules = Inr combinedRules"
| "combineRuleFiles env cwd (file # ruleFiles) combinedRules =
     (case safeReadFile env file cwd of
        Inl e \<Rightarrow> Inl e
      | Inr content \<Rightarrow>
          combineRuleFiles env cwd ruleFiles
            (if content \<noteq> [] then combinedRules @ ''\<newline>'' @ content @ ''\<newline>'' else combinedRules))"

definition loadRuleFiles :: "'a instr_env_scheme \<Rightarrow> string \<Rightarrow> js_error + string" where
  "loadRuleFiles env cwd =
     combineRuleFiles env cwd [''.clinerules'', ''.cursorrules'', ''.windsurfrules''] []"

definition languageSection :: "'a instr_env_scheme \<Rightarrow> string \<Rightarrow> string" where
  \<open>languageSection env lang =
     (let languageName = (case LANGUAGES env lang of
                            None \<Rightarrow> lang
                          | Some n \<Rightarrow> if n \<noteq> [] then n else lang) in
      ''Language Preference:\<newline>You should always speak and think in the "'' @ languageName
      @ ''" ('' @ lang
      @ '') language unless the user gives you instructions below to do otherwise.'')\<close>

definition banner :: string where
  "banner = ''\<newline>====\<newline>\<newline>USER'S CUSTOM INSTRUCTIONS\<newline>\<newline>The following additional instructions are provided by the user, and should be followed to the best of your ability without interfering with the TOOL USE guidelines.\<newline>\<newline>''"

text \<open>
  The array \<open>sections\<close> of \<open>addCustomInstructions\<close> as it stands at the final
  \<open>join\<close>; the mode's rule file is read first, the generic rule files after the
  instruction sections are pushed. Both instruction arguments are strings by their
  declared type, so the two \<open>typeof\<close> tests hold.
\<close>

definition customInstructionSections ::
  "'a instr_env_scheme \<Rightarrow> string \<Rightarrow> string \<Rightarrow> string \<Rightarrow> string \<Rightarrow> instr_options \<Rightarrow> js_error + string list" where
  "customInstructionSections env modeCustomInstructions globalCustomInstructions cwd mode options =
     (case (if mode \<noteq> [] then safeReadFile env (''.clinerules-'' @ mode) cwd else Inr []) of
        Inl e \<Rightarrow> Inl e
      | Inr modeRuleContent \<Rightarrow>
         (let sections =
                (case language options of
                   None \<Rightarrow> []
                 | Some lang \<Rightarrow> if lang \<noteq> [] then [languageSection env lang] else [])
                @ (if trim globalCustomInstructions \<noteq> []
                   then [''Global Instructions:\<newline>'' @ trim globalCustomInstructions] else [])
                @ (if trim modeCustomInstructions \<noteq> []
                   then [''Mode-specific Instructions:\<newline>'' @ trim modeCustomInstructions] else []);
              rules =
                (if modeRuleContent \<noteq> [] \<and> trim modeRuleContent \<noteq> []
                 then [''# Rules from '' @ (''.clinerules-'' @ mode) @ '':\<newline>'' @ modeRuleContent] else [])
                @ (case rooIgnoreInstructions options of
                     None \<Rightarrow> []
                   | Some r \<Rightarrow> if r \<noteq> [] then [r] else [])
          in case loadRuleFiles env cwd of
               Inl e \<Rightarrow> Inl e
             | Inr genericRuleContent \<Rightarrow>
                (let rules' = rules @ (if genericRuleContent \<noteq> [] \<and> trim genericRuleContent \<noteq> []
                                       then [trim genericRuleContent] else [])
                 in Inr (sections @ (if rules' \<noteq> []
                                     then [''Rules:\<newline>\<newline>'' @ js_join ''\<newline>\<newline>'' rules'] else [])))))"

definition addCustomInstructions ::
  "'a instr_env_scheme \<Rightarrow> string \<Rightarrow> string \<Rightarrow> string \<Rightarrow> string \<Rightarrow> instr_options \<Rightarrow> js_error + string" where
  "addCustomInstructions env modeCustomInstructions globalCustomInstructions cwd mode options =
     (case customInstructionSections env modeCustomInstructions globalCustomInstructions cwd mode options of
        Inl e \<Rightarrow> Inl e
      | Inr sections \<Rightarrow>
         (let joinedSections = js_join ''\<newline>\<newline>'' sections in
          Inr (if joinedSections \<noteq> [] then banner @ joinedSections else [])))"

section \<open>Example environments\<close>

text \<open>
  On an absolute, normalised directory and a plain file name, which is all the
  examples use, Node's \<open>path.join\<close>, \<open>path.resolve\<close>, \<open>path.basename\<close> and
  \<open>path.posix.join\<close> compute the following.
\<close>

definition simple_join :: "string \<Rightarrow> string \<Rightarrow> string" where
  "simple_join dir file = dir @ ''/'' @ file"

definition simple_resolve :: "string \<Rightarrow> string \<Rightarrow> string" where
  "simple_resolve dir p = (if take 1 p = ''/'' then p else dir @ ''/'' @ p)"

definition simple_basename :: "string \<Rightarrow> string" where
  "simple_basename p = rev (takeWhile (\<lambda>c. c \<noteq> CHR ''/'') (rev p))"

text \<open>\<open>JSON.parse\<close> on the texts the examples hold.\<close>

definition rules_semi :: jsval where
  "rules_semi = JObj [(''semi'', JStr ''error'')]"

definition config_semi :: jsval where
  "config_semi = JObj [(''rules'', rules_semi)]"

definition config_empty_rules :: jsval where
  "config_empty_rules = JObj [(''rules'', JObj [])]"

definition example_parse :: "string \<Rightarrow> js_error + jsval" where
  \<open>example_parse text =
     (if text = ''{"rules":{"semi":"error"}}'' then Inr config_semi
      else if text = ''{"rules":{}}'' then Inr config_empty_rules
      else if text = ''{}'' then Inr (JObj [])
      else if text = ''{"eslintConfig":{"rules":{"semi":"error"}}}''
        then Inr (JObj [(''eslintConfig'', config_semi)])
      else Inl (Thrown ''SyntaxError''))\<close>

text \<open>
  A workspace \<open>/ws\<close> with no config file, an engine that throws and a linter process
  that exits with code 2; the examples below change one part or another of it.
\<close>

definition lint_env0 :: lint_env where
  "lint_env0 =
     \<lparr> path_join = simple_join, path_basename = simple_basename,
       path_resolve = simple_resolve, path_posix_join = (\<lambda>p. p),
       workspaceFolders = Some [''/ws''],
       getWorkspacePath = (\<lambda>d. ''/ws''),
       existsSync = (\<lambda>p. False),
       readFileSync = (\<lambda>p. Inl (Errno ''ENOENT'')),
       JSON_parse = example_parse,
       calculateConfigForFile = (\<lambda>cwd file. Inl (Thrown ''No ESLint configuration found'')),
       spawn = (\<lambda>command args cwd. ProcClose (Some 2) []) \<rparr>"

text \<open>\<open>.eslintrc\<close> holds an empty rule mapping, \<open>.eslintrc.json\<close> one rule.\<close>

definition lint_env_two_files :: lint_env where
  \<open>lint_env_two_files =
     lint_env0
       \<lparr> existsSync := (\<lambda>p. p = ''/ws/.eslintrc'' \<or> p = ''/ws/.eslintrc.json''),
         readFileSync := (\<lambda>p.
            if p = ''/ws/.eslintrc'' then Inr ''{"rules":{}}''
            else if p = ''/ws/.eslintrc.json'' then Inr ''{"rules":{"semi":"error"}}''
            else Inl (Errno ''ENOENT'')) \<rparr>\<close>

text \<open>
  \<open>.eslintrc\<close> is absent, \<open>.eslintrc.js\<close> is no JSON, \<open>.eslintrc.json\<close> cannot be
  read, \<open>.eslintrc.yaml\<close> holds one rule.
\<close>

definition lint_env_broken_files :: lint_env where
  \<open>lint_env_broken_files =
     lint_env0
       \<lparr> existsSync := (\<lambda>p. p = ''/ws/.eslintrc.js'' \<or> p = ''/ws/.eslintrc.json''
                               \<or> p = ''/ws/.eslintrc.yaml''),
         readFileSync := (\<lambda>p.
            if p = ''/ws/.eslintrc.js'' then Inr ''module.exports = {}''
            else if p = ''/ws/.eslintrc.json'' then Inl (Errno ''EACCES'')
            else if p = ''/ws/.eslintrc.yaml'' then Inr ''{"rules":{"semi":"error"}}''
            else Inl (Errno ''ENOENT'')) \<rparr>\<close>

text \<open>
  \<open>.eslintrc\<close> exists and holds one rule; the linter process exits with the given
  code after printing the given text.
\<close>

definition lint_env_process :: "int option \<Rightarrow> string \<Rightarrow> lint_env" where
  \<open>lint_env_process code output =
     lint_env0
       \<lparr> existsSync := (\<lambda>p. p = ''/ws/.eslintrc''),
         readFileSync := (\<lambda>p.
            if p = ''/ws/.eslintrc'' then Inr ''{"rules":{"semi":"error"}}''
            else Inl (Errno ''ENOENT'')),
         spawn := (\<lambda>command args cwd. ProcClose code output) \<rparr>\<close>

text \<open>The same workspace when \<open>npx\<close> cannot be spawned.\<close>

definition lint_env_no_npx :: lint_env where
  \<open>lint_env_no_npx =
     (lint_env_process (Some 0) [])
       \<lparr> spawn := (\<lambda>command args cwd. ProcError (Errno ''ENOENT'')) \<rparr>\<close>

text \<open>The engine computes one rule, and \<open>.eslintrc\<close> holds an empty rule mapping.\<close>

definition lint_env_engine :: lint_env where
  \<open>lint_env_engine =
     lint_env_two_files
       \<lparr> calculateConfigForFile := (\<lambda>cwd file. Inr config_semi) \<rparr>\<close>

text \<open>
  No source holds a rule: the engine computes a configuration whose rule mapping is
  empty, the only candidate file \<open>.eslintrc\<close> holds \<open>{}\<close>, and the linter process
  prints \<open>{}\<close> and exits with code 0.
\<close>

definition lint_env_no_rules :: lint_env where
  \<open>lint_env_no_rules =
     lint_env0
       \<lparr> existsSync := (\<lambda>p. p = ''/ws/.eslintrc''),
         readFileSync := (\<lambda>p. if p = ''/ws/.eslintrc'' then Inr ''{}'' else Inl (Errno ''ENOENT'')),
         calculateConfigForFile := (\<lambda>cwd file. Inr config_empty_rules),
         spawn := (\<lambda>command args cwd. ProcClose (Some 0) ''{}'') \<rparr>\<close>

text \<open>
  A working directory \<open>/ws\<close> that holds no rule file, and a table of languages with
  an entry for \<open>fr\<close>.
\<close>

definition instr_env0 :: instr_env where
  "instr_env0 =
     \<lparr> path_join = simple_join, path_basename = simple_basename,
       path_resolve = simple_resolve, path_posix_join = (\<lambda>p. p),
       fileExistsAtPath = (\<lambda>p. Inr False),
       isDirectory = (\<lambda>p. Inr False),
       readdir = (\<lambda>p. Inl (Errno ''ENOENT'')),
       readFile = (\<lambda>p. Inl (Errno ''ENOENT'')),
       LANGUAGES = [''en'' \<mapsto> ''English'', ''fr'' \<mapsto> ''Fran'' @ [CHR 0xC3, CHR 0xA7] @ ''ais''] \<rparr>"

text \<open>\<open>/ws/.clinerules\<close> is a directory that holds \<open>a.md\<close> ("A") and \<open>b.md\<close> ("B").\<close>

definition instr_env_flat :: instr_env where
  "instr_env_flat =
     instr_env0
       \<lparr> fileExistsAtPath := (\<lambda>p. Inr (p \<in> set [''/ws/.clinerules'', ''/ws/.clinerules/a.md'',
                                                  ''/ws/.clinerules/b.md''])),
         isDirectory := (\<lambda>p. Inr (p = ''/ws/.clinerules'')),
         readdir := (\<lambda>p.
            if p = ''/ws/.clinerules'' then
              Inr [\<lparr> dirent_name = ''a.md'', dirent_parentPath = ''/ws/.clinerules'', dirent_isFile = True \<rparr>,
                   \<lparr> dirent_name = ''b.md'', dirent_parentPath = ''/ws/.clinerules'', dirent_isFile = True \<rparr>]
            else Inl (Errno ''ENOENT'')),
         readFile := (\<lambda>p.
            if p = ''/ws/.clinerules/a.md'' then Inr ''A''
            else if p = ''/ws/.clinerules/b.md'' then Inr ''B''
            else if p = ''/ws/.clinerules'' then Inl (Errno ''EISDIR'')
            else Inl (Errno ''ENOENT'')) \<rparr>"

text \<open>
  \<open>/ws/.clinerules\<close> is a directory whose only regular file is \<open>sub/c.md\<close> ("C"): the
  recursive listing holds the directory \<open>sub\<close> and, with parent \<open>/ws/.clinerules/sub\<close>,
  the file \<open>c.md\<close>.
\<close>

definition instr_env_nested :: instr_env where
  "instr_env_nested =
     instr_env0
       \<lparr> fileExistsAtPath := (\<lambda>p. Inr (p \<in> set [''/ws/.clinerules'', ''/ws/.clinerules/sub'',
                                                  ''/ws/.clinerules/sub/c.md''])),
         isDirectory := (\<lambda>p. Inr (p \<in> set [''/ws/.clinerules'', ''/ws/.clinerules/sub''])),
         readdir := (\<lambda>p.
            if p = ''/ws/.clinerules'' then
              Inr [\<lparr> dirent_name = ''sub'', dirent_parentPath = ''/ws/.clinerules'', dirent_isFile = False \<rparr>,
                   \<lparr> dirent_name = ''c.md'', dirent_parentPath = ''/ws/.clinerules/sub'', dirent_isFile = True \<rparr>]
            else Inl (Errno ''ENOENT'')),
         readFile := (\<lambda>p.
            if p = ''/ws/.clinerules/sub/c.md'' then Inr ''C''
            else if p \<in> set [''/ws/.clinerules'', ''/ws/.clinerules/sub''] then Inl (Errno ''EISDIR'')
            else Inl (Errno ''ENOENT'')) \<rparr>"

text \<open>\<open>/ws/.clinerules\<close> is a directory that the process may not list.\<close>

definition instr_env_unreadable_dir :: instr_env where
  "instr_env_unreadable_dir =
     instr_env0
       \<lparr> fileExistsAtPath := (\<lambda>p. Inr (p = ''/ws/.clinerules'')),
         isDirectory := (\<lambda>p. Inr (p = ''/ws/.clinerules'')),
         readdir := (\<lambda>p. if p = ''/ws/.clinerules'' then Inl (Errno ''EACCES'') else Inl (Errno ''ENOENT'')),
         readFile := (\<lambda>p. if p = ''/ws/.clinerules'' then Inl (Errno ''EISDIR'') else Inl (Errno ''ENOENT'')) \<rparr>"

text \<open>
  \<open>/ws/.clinerules\<close> is a regular file that the process may not read, and
  \<open>/ws/.cursorrules\<close> is removed between the existence check and the read.
\<close>

definition instr_env_unreadable_file :: instr_env where
  "instr_env_unreadable_file =
     instr_env0
       \<lparr> fileExistsAtPath := (\<lambda>p. Inr (p \<in> set [''/ws/.clinerules'', ''/ws/.cursorrules''])),
         readFile := (\<lambda>p. if p = ''/ws/.clinerules'' then Inl (Errno ''EACCES'') else Inl (Errno ''ENOENT'')) \<rparr>"

text \<open>
  Regular files \<open>/ws/.clinerules-code\<close> and \<open>/ws/.clinerules\<close> with one line each, and
  a \<open>/ws/.windsurfrules\<close> that holds white space only.
\<close>

definition instr_env_files :: instr_env where
  "instr_env_files =
     instr_env0
       \<lparr> fileExistsAtPath := (\<lambda>p. Inr (p \<in> set [''/ws/.clinerules-code'', ''/ws/.clinerules'',
                                                  ''/ws/.windsurfrules''])),
         readFile := (\<lambda>p.
            if p = ''/ws/.clinerules-code'' then Inr ''  Use tabs.\<newline>''
            else if p = ''/ws/.clinerules'' then Inr ''Be brief.\<newline>''
            else if p = ''/ws/.windsurfrules'' then Inr '' \<newline>''
            else Inl (Errno ''ENOENT'')) \<rparr>"


section \<open>Linter configuration: what the two resolvers return\<close>

lemmas lint_example_defs =
  lint_env0_def lint_env_two_files_def lint_env_broken_files_def lint_env_process_def
  lint_env_no_npx_def lint_env_engine_def lint_env_no_rules_def simple_join_def simple_basename_def
  example_parse_def config_semi_def config_empty_rules_def rules_semi_def

lemmas lint_defs =
  getWorkspaceESLintRules_def firstWorkspacePath_def getFullESLintConfig_def
  getESLintConfigPaths_def parseESLintConfig_def getESLintConfigFromPackageJson_def
  opt_prop_def configRules_def
  getWorkspaceESLintRules_sub_def getConfigPath_def getESLintConfigPaths_sub_def
  getFullESLintConfig_sub_def runCommand_def Number_of_code_def

lemma parseESLintConfig_returns: "\<exists>config. parseESLintConfig env configPath = Inr config"
  by (simp add: parseESLintConfig_def split: sum.split)

lemma getFullESLintConfig_returns: "\<exists>config. getFullESLintConfig env workspacePath = Inr config"
  by (simp add: getFullESLintConfig_def split: sum.split)

lemma getFullESLintConfig_sub_returns:
  "\<exists>config. getFullESLintConfig_sub env workspacePath filePath = Inr config"
  by (simp add: getFullESLintConfig_sub_def split: sum.split)

lemma scanConfigPaths_find:
  "scanConfigPaths env paths =
     (case List.find (\<lambda>p. truthy (configRules env p)) paths of
        None \<Rightarrow> Inr JNull
      | Some p \<Rightarrow> Inr (configRules env p))"
proof (induction paths)
  case Nil
  show ?case by simp
next
  case (Cons p ps)
  obtain c where c: "parseESLintConfig env p = Inr c"
    using parseESLintConfig_returns by blast
  show ?case
  proof (cases "truthy (opt_prop c ''rules'')")
    case True
    with c show ?thesis by (simp add: configRules_def)
  next
    case False
    with c Cons.IH show ?thesis by (simp add: configRules_def)
  qed
qed

lemma truthy_not_null: "truthy v \<Longrightarrow> v \<noteq> JNull"
  by auto

lemma scanConfigPaths_null:
  "scanConfigPaths env paths = Inr JNull \<longleftrightarrow> (\<forall>p \<in> set paths. \<not> truthy (configRules env p))"
proof (cases "List.find (\<lambda>p. truthy (configRules env p)) paths")
  case None
  then have "\<forall>p \<in> set paths. \<not> truthy (configRules env p)"
    by (simp add: find_None_iff)
  with None show ?thesis by (simp add: scanConfigPaths_find)
next
  case (Some p)
  then have "truthy (configRules env p)" and "p \<in> set paths"
    by (auto simp: find_Some_iff)
  with Some show ?thesis by (auto simp: scanConfigPaths_find)
qed

lemma failed_source_no_rules:
  assumes "\<not> existsSync env p \<or> (\<exists>e. readFileSync env p = Inl e)
           \<or> (\<exists>c e. readFileSync env p = Inr c \<and> JSON_parse env c = Inl e)"
  shows "parseESLintConfig env p = Inr JNull"
  using assms
  by (auto simp: parseESLintConfig_def getESLintConfigFromPackageJson_def)

lemma engine_rules_returned:
  assumes "firstWorkspacePath env = Some ws" and "ws \<noteq> []"
    and "calculateConfigForFile env ws ''dummy.ts'' = Inr fullConfig"
    and "truthy (opt_prop fullConfig ''rules'')"
  shows "getWorkspaceESLintRules env = Inr (opt_prop fullConfig ''rules'')"
  using assms by (simp add: getWorkspaceESLintRules_def getFullESLintConfig_def)

lemma engine_rules_example:
  "parseESLintConfig lint_env_engine ''/ws/.eslintrc'' = Inr config_empty_rules
   \<and> getWorkspaceESLintRules lint_env_engine = Inr rules_semi"
  by (simp add: lint_defs lint_example_defs)

text \<open>
  C1 (the sub-process resolver breaks it). The claim: when the probe succeeds with a
  non-empty rule mapping, the resolver returns that rule mapping. Here \<open>.eslintrc\<close>
  exists and \<open>npx eslint --print-config\<close> exits with code 0 after printing a
  configuration whose \<open>rules\<close> hold one rule: the sub-process resolver returns the whole
  configuration object, which is not its rule mapping. (The in-process resolver does
  return the rule mapping: \<open>engine_rules_returned\<close>.)
\<close>

theorem subprocess_returns_whole_config:
  \<open>getFullESLintConfig_sub (lint_env_process (Some 0) ''{"rules":{"semi":"error"}}'')
       ''/ws'' ''/ws/.eslintrc'' = Inr config_semi
   \<and> opt_prop config_semi ''rules'' = rules_semi
   \<and> getWorkspaceESLintRules_sub (lint_env_process (Some 0) ''{"rules":{"semi":"error"}}'') []
       = Inr config_semi
   \<and> config_semi \<noteq> rules_semi\<close>
  by (simp add: lint_defs lint_example_defs)

text \<open>
  C2, as stated, fails. In-process resolver: the engine throws, \<open>.eslintrc\<close> holds an
  empty rule mapping and \<open>.eslintrc.json\<close> a rule; the empty mapping of the earlier file
  is returned, not the rules of the later one. Sub-process resolver: the linter process
  exits with code 2 while \<open>.eslintrc\<close> holds a rule; the result is \<open>null\<close>, no file
  is parsed.
\<close>

theorem fallback_nonempty_rules_counterexample:
  "getFullESLintConfig lint_env_two_files ''/ws'' = Inr JNull
   \<and> parseESLintConfig lint_env_two_files ''/ws/.eslintrc'' = Inr (JObj [(''rules'', JObj [])])
   \<and> parseESLintConfig lint_env_two_files ''/ws/.eslintrc.json''
       = Inr (JObj [(''rules'', JObj [(''semi'', JStr ''error'')])])
   \<and> getWorkspaceESLintRules lint_env_two_files = Inr (JObj [])
   \<and> getWorkspaceESLintRules lint_env_two_files \<noteq> Inr (JObj [(''semi'', JStr ''error'')])
   \<and> getFullESLintConfig_sub (lint_env_process (Some 2) []) ''/ws'' ''/ws/.eslintrc'' = Inr JNull
   \<and> parseESLintConfig (lint_env_process (Some 2) []) ''/ws/.eslintrc''
       = Inr (JObj [(''rules'', JObj [(''semi'', JStr ''error'')])])
   \<and> getWorkspaceESLintRules_sub (lint_env_process (Some 2) []) [] = Inr JNull"
  by (simp add: lint_defs lint_example_defs)

text \<open>
  C2, amended. In-process resolver: when the engine fails or its configuration has no
  truthy \<open>rules\<close>, the result is \<open>config.rules\<close> of the first candidate path, in the
  fixed order, whose file exists, parses as JSON and has a truthy \<open>rules\<close> value (a
  rule mapping that is present, be it empty), and \<open>null\<close> when there is none; a file
  that is absent, unreadable or unparseable has no such value. Sub-process resolver:
  there is no fallback; the result does not depend on what any file holds, and is
  \<open>null\<close> when the probe yields \<open>null\<close>.
\<close>

theorem fallback_first_truthy_rules:
  "(firstWorkspacePath env = Some ws \<and> ws \<noteq> [] \<and> getFullESLintConfig env ws = Inr fullConfig
      \<and> \<not> truthy (opt_prop fullConfig ''rules'')
     \<longrightarrow> getWorkspaceESLintRules env =
          (case List.find (\<lambda>p. truthy (configRules env p)) (getESLintConfigPaths env ws) of
             None \<Rightarrow> Inr JNull
           | Some p \<Rightarrow> Inr (configRules env p)))
   \<and> (\<not> existsSync env p \<or> (\<exists>e. readFileSync env p = Inl e)
        \<or> (\<exists>c e. readFileSync env p = Inr c \<and> JSON_parse env c = Inl e)
     \<longrightarrow> \<not> truthy (configRules env p))
   \<and> getWorkspaceESLintRules_sub (env\<lparr>readFileSync := r\<rparr>) d = getWorkspaceESLintRules_sub env d
   \<and> (getConfigPath env (getWorkspacePath env d) = Some filePath
        \<and> getFullESLintConfig_sub env (getWorkspacePath env d) filePath = Inr JNull
     \<longrightarrow> getWorkspaceESLintRules_sub env d = Inr JNull)"
proof (intro conjI impI)
  assume "firstWorkspacePath env = Some ws \<and> ws \<noteq> [] \<and> getFullESLintConfig env ws = Inr fullConfig
      \<and> \<not> truthy (opt_prop fullConfig ''rules'')"
  then show "getWorkspaceESLintRules env =
          (case List.find (\<lambda>p. truthy (configRules env p)) (getESLintConfigPaths env ws) of
             None \<Rightarrow> Inr JNull
           | Some p \<Rightarrow> Inr (configRules env p))"
    by (simp add: getWorkspaceESLintRules_def scanConfigPaths_find)
next
  assume "\<not> existsSync env p \<or> (\<exists>e. readFileSync env p = Inl e)
        \<or> (\<exists>c e. readFileSync env p = Inr c \<and> JSON_parse env c = Inl e)"
  then have "parseESLintConfig env p = Inr JNull"
    by (rule failed_source_no_rules)
  then show "\<not> truthy (configRules env p)"
    by (simp add: configRules_def opt_prop_def)
next
  have paths: "getConfigPath (env\<lparr>readFileSync := r\<rparr>) = getConfigPath env"
    by (simp add: fun_eq_iff getConfigPath_def getESLintConfigPaths_sub_def)
  have probe: "getFullESLintConfig_sub (env\<lparr>readFileSync := r\<rparr>) = getFullESLintConfig_sub env"
    by (simp add: fun_eq_iff getFullESLintConfig_sub_def runCommand_def
        cong: sum.case_cong proc_outcome.case_cong)
  show "getWorkspaceESLintRules_sub (env\<lparr>readFileSync := r\<rparr>) d
      = getWorkspaceESLintRules_sub env d"
    unfolding getWorkspaceESLintRules_sub_def paths probe by simp
next
  assume "getConfigPath env (getWorkspacePath env d) = Some filePath
        \<and> getFullESLintConfig_sub env (getWorkspacePath env d) filePath = Inr JNull"
  then show "getWorkspaceESLintRules_sub env d = Inr JNull"
    by (simp add: getWorkspaceESLintRules_sub_def)
qed

theorem fallback_first_truthy_rules_witness:
  "getWorkspaceESLintRules lint_env_broken_files = Inr rules_semi
   \<and> \<not> truthy (configRules lint_env_broken_files ''/ws/.eslintrc'')
   \<and> \<not> truthy (configRules lint_env_broken_files ''/ws/.eslintrc.js'')
   \<and> \<not> truthy (configRules lint_env_broken_files ''/ws/.eslintrc.json'')
   \<and> getWorkspaceESLintRules_sub (lint_env_process (Some 2) []) [] = Inr JNull"
proof -
  have probe: "firstWorkspacePath lint_env_broken_files = Some ''/ws'' \<and> ''/ws'' \<noteq> []
      \<and> getFullESLintConfig lint_env_broken_files ''/ws'' = Inr JNull
      \<and> \<not> truthy (opt_prop JNull ''rules'')"
    by (simp add: lint_defs lint_example_defs)
  have found: "List.find (\<lambda>p. truthy (configRules lint_env_broken_files p))
                 (getESLintConfigPaths lint_env_broken_files ''/ws'') = Some ''/ws/.eslintrc.yaml''"
    by (simp add: lint_defs lint_example_defs)
  have rules: "configRules lint_env_broken_files ''/ws/.eslintrc.yaml'' = rules_semi"
    by (simp add: lint_defs lint_example_defs)
  have absent: "\<not> existsSync lint_env_broken_files ''/ws/.eslintrc''"
    by (simp add: lint_example_defs)
  have unparseable: "\<exists>c e. readFileSync lint_env_broken_files ''/ws/.eslintrc.js'' = Inr c
      \<and> JSON_parse lint_env_broken_files c = Inl e"
    by (simp add: lint_example_defs)
  have unreadable: "\<exists>e. readFileSync lint_env_broken_files ''/ws/.eslintrc.json'' = Inl e"
    by (simp add: lint_example_defs)
  have sub: "getConfigPath (lint_env_process (Some 2) []) (getWorkspacePath (lint_env_process (Some 2) []) [])
        = Some ''/ws/.eslintrc''
      \<and> getFullESLintConfig_sub (lint_env_process (Some 2) [])
          (getWorkspacePath (lint_env_process (Some 2) []) []) ''/ws/.eslintrc'' = Inr JNull"
    by (simp add: lint_defs lint_example_defs)
  show ?thesis
    using probe found rules absent unparseable unreadable sub
      fallback_first_truthy_rules [of lint_env_broken_files "''/ws''" JNull "''/ws/.eslintrc''"]
      fallback_first_truthy_rules [of lint_env_broken_files "''/ws''" JNull "''/ws/.eslintrc.js''"]
      fallback_first_truthy_rules [of lint_env_broken_files "''/ws''" JNull "''/ws/.eslintrc.json''"]
      fallback_first_truthy_rules [of "lint_env_process (Some 2) []" "''/ws''" JNull "''/ws/.eslintrc''"
        undefined "[]" "''/ws/.eslintrc''"]
    by simp
qed

lemma falsy_no_rules: "\<not> truthy c \<Longrightarrow> opt_prop c k = JUndefined"
  by (cases c) (simp_all add: opt_prop_def)

text \<open>
  When a candidate file yields a truthy \<open>rules\<close> value, in terms of the file system
  and of \<open>JSON.parse\<close>: the file exists, can be read, parses, and \<open>rules\<close> of the
  parsed value (of its \<open>eslintConfig\<close> member for \<open>package.json\<close>) is truthy.
\<close>

lemma configRules_truthy_iff:
  "truthy (configRules env p) \<longleftrightarrow>
     existsSync env p
     \<and> (\<exists>c v. readFileSync env p = Inr c \<and> JSON_parse env c = Inr v
           \<and> truthy (opt_prop (if path_basename env p = ''package.json''
                                 then opt_prop v ''eslintConfig'' else v) ''rules''))"
proof (cases "existsSync env p")
  case False
  then show ?thesis
    by (simp add: configRules_def parseESLintConfig_def opt_prop_def)
next
  case True
  show ?thesis
  proof (cases "readFileSync env p")
    case (Inl e)
    with True show ?thesis
      by (simp add: configRules_def parseESLintConfig_def getESLintConfigFromPackageJson_def
          opt_prop_def)
  next
    case (Inr c)
    show ?thesis
    proof (cases "JSON_parse env c")
      case (Inl e)
      with True \<open>readFileSync env p = Inr c\<close> show ?thesis
        by (simp add: configRules_def parseESLintConfig_def getESLintConfigFromPackageJson_def
            opt_prop_def)
    next
      case parsed: (Inr v)
      show ?thesis
      proof (cases "path_basename env p = ''package.json''")
        case False
        with True Inr parsed show ?thesis
          by (simp add: configRules_def parseESLintConfig_def)
      next
        case package: True
        have "configRules env p = opt_prop (opt_prop v ''eslintConfig'') ''rules''"
        proof (cases "get_prop v ''eslintConfig''")
          case (Inl e)
          with True Inr parsed package show ?thesis
            by (simp add: configRules_def parseESLintConfig_def getESLintConfigFromPackageJson_def
                opt_prop_def)
        next
          case got: (Inr member)
          show ?thesis
          proof (cases "truthy member")
            case True
            with \<open>existsSync env p\<close> Inr parsed package got show ?thesis
              by (simp add: configRules_def parseESLintConfig_def getESLintConfigFromPackageJson_def
                  opt_prop_def)
          next
            case False
            then have "opt_prop member ''rules'' = JUndefined"
              by (rule falsy_no_rules)
            with False \<open>existsSync env p\<close> Inr parsed package got show ?thesis
              by (simp add: configRules_def parseESLintConfig_def getESLintConfigFromPackageJson_def
                  opt_prop_def)
          qed
        qed
        with True Inr parsed package show ?thesis by simp
      qed
    qed
  qed
qed

lemma candidates_without_rules:
  "(\<forall>q \<in> set (getESLintConfigPaths env w). \<not> truthy (configRules env q)) \<longleftrightarrow>
   (\<forall>f \<in> set [''.eslintrc'', ''.eslintrc.js'', ''.eslintrc.json'', ''.eslintrc.yaml'',
                  ''.eslintrc.yml'', ''package.json''].
      \<forall>text v. existsSync env (path_join env w f)
          \<and> readFileSync env (path_join env w f) = Inr text
          \<and> JSON_parse env text = Inr v
        \<longrightarrow> \<not> truthy (opt_prop
               (if path_basename env (path_join env w f) = ''package.json''
                then opt_prop v ''eslintConfig'' else v) ''rules''))"
proof -
  have one: "\<not> truthy (configRules env q) \<longleftrightarrow>
      (\<forall>text v. existsSync env q \<and> readFileSync env q = Inr text \<and> JSON_parse env text = Inr v
        \<longrightarrow> \<not> truthy (opt_prop (if path_basename env q = ''package.json''
                                    then opt_prop v ''eslintConfig'' else v) ''rules''))" for q
    unfolding configRules_truthy_iff by blast
  show ?thesis
    unfolding getESLintConfigPaths_def set_map ball_simps one ..
qed

lemma getConfigPath_find:
  "getConfigPath env w =
     List.find (existsSync env)
       (map (path_join env w)
          [''.eslintrc'', ''.eslintrc.js'', ''.eslintrc.json'', ''.eslintrc.yaml'', ''.eslintrc.yml''])"
  by (simp only: getConfigPath_def getESLintConfigPaths_sub_def)

lemma probe_fails_null:
  assumes "getConfigPath env (getWorkspacePath env d) = Some q"
    and "spawn env ''npx'' [''eslint'', ''--print-config'', q] (getWorkspacePath env d) = ProcError e
         \<or> (spawn env ''npx'' [''eslint'', ''--print-config'', q] (getWorkspacePath env d)
               = ProcClose (Some code) out
             \<and> (code \<noteq> 0 \<and> code \<noteq> 1
                 \<or> JSON_parse env out = Inl e
                 \<or> (JSON_parse env out = Inr v \<and> \<not> truthy v)))"
  shows "getWorkspaceESLintRules_sub env d = Inr JNull"
proof -
  have "getFullESLintConfig_sub env (getWorkspacePath env d) q = Inr JNull
      \<or> (\<exists>v. getFullESLintConfig_sub env (getWorkspacePath env d) q = Inr v \<and> \<not> truthy v)"
    using assms(2)
    by (auto simp: getFullESLintConfig_sub_def runCommand_def Number_of_code_def)
  with assms(1) show ?thesis
    by (auto simp: getWorkspaceESLintRules_sub_def)
qed

lemma probe_rules_not_null:
  assumes "getConfigPath env (getWorkspacePath env d) = Some q" and "q \<noteq> []"
    and "spawn env ''npx'' [''eslint'', ''--print-config'', q] (getWorkspacePath env d)
           = ProcClose (Some code) out"
    and "code = 0 \<or> code = 1"
    and "JSON_parse env out = Inr v"
    and "truthy (opt_prop v ''rules'')"
  shows "getWorkspaceESLintRules_sub env d \<noteq> Inr JNull"
proof -
  have object: "truthy v \<and> v \<noteq> JNull"
    using assms(6) by (cases v) (simp_all add: opt_prop_def)
  have "getFullESLintConfig_sub env (getWorkspacePath env d) q = Inr v"
    using assms(3,4,5)
    by (auto simp: getFullESLintConfig_sub_def runCommand_def Number_of_code_def)
  with assms(1,2) object show ?thesis
    by (simp add: getWorkspaceESLintRules_sub_def)
qed

lemma no_candidate_null:
  assumes "\<forall>f \<in> set [''.eslintrc'', ''.eslintrc.js'', ''.eslintrc.json'', ''.eslintrc.yaml'',
                   ''.eslintrc.yml''].
          \<not> existsSync env (path_join env (getWorkspacePath env d) f)"
  shows "getWorkspaceESLintRules_sub env d = Inr JNull"
proof -
  have "getConfigPath env (getWorkspacePath env d) = None"
    using assms by (simp add: getConfigPath_find)
  then show ?thesis by (simp add: getWorkspaceESLintRules_sub_def)
qed

text \<open>
  C3, as stated, fails. No source holds a rule: the engine computes a configuration
  whose rule mapping is empty, \<open>.eslintrc\<close> holds \<open>{}\<close> and the linter process prints
  \<open>{}\<close>. The in-process resolver returns the empty rule mapping and the sub-process
  resolver the empty configuration object: neither returns \<open>null\<close>.
\<close>

theorem null_without_rules_counterexample:
  "calculateConfigForFile lint_env_no_rules ''/ws'' ''dummy.ts'' = Inr (JObj [(''rules'', JObj [])])
   \<and> parseESLintConfig lint_env_no_rules ''/ws/.eslintrc'' = Inr (JObj [])
   \<and> \<not> existsSync lint_env_no_rules ''/ws/.eslintrc.js''
   \<and> \<not> existsSync lint_env_no_rules ''/ws/.eslintrc.json''
   \<and> \<not> existsSync lint_env_no_rules ''/ws/.eslintrc.yaml''
   \<and> \<not> existsSync lint_env_no_rules ''/ws/.eslintrc.yml''
   \<and> \<not> existsSync lint_env_no_rules ''/ws/package.json''
   \<and> getWorkspaceESLintRules lint_env_no_rules = Inr (JObj [])
   \<and> getWorkspaceESLintRules lint_env_no_rules \<noteq> Inr JNull
   \<and> getFullESLintConfig_sub lint_env_no_rules ''/ws'' ''/ws/.eslintrc'' = Inr (JObj [])
   \<and> opt_prop (JObj []) ''rules'' = JUndefined
   \<and> getWorkspaceESLintRules_sub lint_env_no_rules [] = Inr (JObj [])
   \<and> getWorkspaceESLintRules_sub lint_env_no_rules [] \<noteq> Inr JNull"
  by (simp add: lint_defs lint_example_defs lint_env_no_rules_def)

text \<open>
  C3, amended. Neither resolver ever throws. A source that fails produces nothing: an
  engine that throws, a candidate file that is absent, cannot be read or does not
  parse, a linter process whose promise is rejected or whose output does not parse all
  give \<open>null\<close> for that source. The in-process resolver returns \<open>null\<close> exactly when
  no workspace folder is open (or the first has an empty path), or the engine throws
  or computes a configuration without a truthy \<open>rules\<close> value and no candidate file
  exists, parses and has a truthy \<open>rules\<close> value; a rule mapping that is present but
  empty is truthy and is returned. The sub-process resolver returns \<open>null\<close> when no
  candidate file exists, and when the probe on the first existing candidate cannot be
  spawned, exits with a code other than 0 and 1, prints what does not parse or
  prints a falsy value; it does not return \<open>null\<close> when the probe exits with code 0
  or 1 after printing a configuration with a truthy \<open>rules\<close> value.
\<close>

theorem resolve_never_throws:
  "(\<exists>v. getWorkspaceESLintRules env = Inr v)
   \<and> (\<exists>v. getWorkspaceESLintRules_sub env d = Inr v)
   \<and> (calculateConfigForFile env ws ''dummy.ts'' = Inl e \<longrightarrow> getFullESLintConfig env ws = Inr JNull)
   \<and> (\<not> existsSync env p \<or> readFileSync env p = Inl e
        \<or> (readFileSync env p = Inr c \<and> JSON_parse env c = Inl e)
      \<longrightarrow> parseESLintConfig env p = Inr JNull)
   \<and> (runCommand env ''npx'' [''eslint'', ''--print-config'', p] ws = Inl e
        \<or> (runCommand env ''npx'' [''eslint'', ''--print-config'', p] ws = Inr c \<and> JSON_parse env c = Inl e)
      \<longrightarrow> getFullESLintConfig_sub env ws p = Inr JNull)
   \<and> (getWorkspaceESLintRules env = Inr JNull \<longleftrightarrow>
        (\<forall>w ps. workspaceFolders env = Some (w # ps) \<and> w \<noteq> []
          \<longrightarrow> (\<forall>cfg. calculateConfigForFile env w ''dummy.ts'' = Inr cfg
                  \<longrightarrow> \<not> truthy (opt_prop cfg ''rules''))
              \<and> (\<forall>f \<in> set [''.eslintrc'', ''.eslintrc.js'', ''.eslintrc.json'', ''.eslintrc.yaml'',
                              ''.eslintrc.yml'', ''package.json''].
                   \<forall>text v. existsSync env (path_join env w f)
                       \<and> readFileSync env (path_join env w f) = Inr text
                       \<and> JSON_parse env text = Inr v
                     \<longrightarrow> \<not> truthy (opt_prop
                            (if path_basename env (path_join env w f) = ''package.json''
                             then opt_prop v ''eslintConfig'' else v) ''rules''))))
   \<and> ((\<forall>f \<in> set [''.eslintrc'', ''.eslintrc.js'', ''.eslintrc.json'', ''.eslintrc.yaml'',
                   ''.eslintrc.yml''].
          \<not> existsSync env (path_join env (getWorkspacePath env d) f))
      \<longrightarrow> getWorkspaceESLintRules_sub env d = Inr JNull)
   \<and> (List.find (existsSync env)
          (map (path_join env (getWorkspacePath env d))
             [''.eslintrc'', ''.eslintrc.js'', ''.eslintrc.json'', ''.eslintrc.yaml'',
              ''.eslintrc.yml'']) = Some q
        \<and> (spawn env ''npx'' [''eslint'', ''--print-config'', q] (getWorkspacePath env d) = ProcError e
            \<or> (spawn env ''npx'' [''eslint'', ''--print-config'', q] (getWorkspacePath env d)
                  = ProcClose (Some code) out
                \<and> (code \<noteq> 0 \<and> code \<noteq> 1
                    \<or> JSON_parse env out = Inl e
                    \<or> (JSON_parse env out = Inr v \<and> \<not> truthy v))))
      \<longrightarrow> getWorkspaceESLintRules_sub env d = Inr JNull)
   \<and> (List.find (existsSync env)
          (map (path_join env (getWorkspacePath env d))
             [''.eslintrc'', ''.eslintrc.js'', ''.eslintrc.json'', ''.eslintrc.yaml'',
              ''.eslintrc.yml'']) = Some q
        \<and> q \<noteq> []
        \<and> spawn env ''npx'' [''eslint'', ''--print-config'', q] (getWorkspacePath env d)
            = ProcClose (Some code) out
        \<and> (code = 0 \<or> code = 1)
        \<and> JSON_parse env out = Inr v
        \<and> truthy (opt_prop v ''rules'')
      \<longrightarrow> getWorkspaceESLintRules_sub env d \<noteq> Inr JNull)"
proof (intro conjI)
  show "\<exists>v. getWorkspaceESLintRules env = Inr v"
  proof (cases "firstWorkspacePath env")
    case None
    then show ?thesis by (simp add: getWorkspaceESLintRules_def)
  next
    case (Some w)
    obtain fc where fc: "getFullESLintConfig env w = Inr fc"
      using getFullESLintConfig_returns by blast
    obtain v where v: "scanConfigPaths env (getESLintConfigPaths env w) = Inr v"
      by (cases "List.find (\<lambda>p. truthy (configRules env p)) (getESLintConfigPaths env w)")
        (simp_all add: scanConfigPaths_find)
    from Some fc v show ?thesis by (simp add: getWorkspaceESLintRules_def)
  qed
next
  show "\<exists>v. getWorkspaceESLintRules_sub env d = Inr v"
  proof (cases "getConfigPath env (getWorkspacePath env d)")
    case None
    then show ?thesis by (simp add: getWorkspaceESLintRules_sub_def)
  next
    case (Some q)
    obtain fc where "getFullESLintConfig_sub env (getWorkspacePath env d) q = Inr fc"
      using getFullESLintConfig_sub_returns by blast
    with Some show ?thesis by (simp add: getWorkspaceESLintRules_sub_def)
  qed
next
  show "calculateConfigForFile env ws ''dummy.ts'' = Inl e \<longrightarrow> getFullESLintConfig env ws = Inr JNull"
    by (simp add: getFullESLintConfig_def)
next
  show "\<not> existsSync env p \<or> readFileSync env p = Inl e
        \<or> (readFileSync env p = Inr c \<and> JSON_parse env c = Inl e)
      \<longrightarrow> parseESLintConfig env p = Inr JNull"
    using failed_source_no_rules [of env p] by blast
next
  show "runCommand env ''npx'' [''eslint'', ''--print-config'', p] ws = Inl e
        \<or> (runCommand env ''npx'' [''eslint'', ''--print-config'', p] ws = Inr c \<and> JSON_parse env c = Inl e)
      \<longrightarrow> getFullESLintConfig_sub env ws p = Inr JNull"
    by (auto simp: getFullESLintConfig_sub_def)
next
  let ?files = "\<lambda>w. \<forall>f \<in> set [''.eslintrc'', ''.eslintrc.js'', ''.eslintrc.json'', ''.eslintrc.yaml'',
                              ''.eslintrc.yml'', ''package.json''].
                   \<forall>text v. existsSync env (path_join env w f)
                       \<and> readFileSync env (path_join env w f) = Inr text
                       \<and> JSON_parse env text = Inr v
                     \<longrightarrow> \<not> truthy (opt_prop
                            (if path_basename env (path_join env w f) = ''package.json''
                             then opt_prop v ''eslintConfig'' else v) ''rules'')"
  have scan: "scanConfigPaths env (getESLintConfigPaths env w) = Inr JNull \<longleftrightarrow> ?files w" for w
    unfolding scanConfigPaths_null by (rule candidates_without_rules)
  show "getWorkspaceESLintRules env = Inr JNull \<longleftrightarrow>
        (\<forall>w ps. workspaceFolders env = Some (w # ps) \<and> w \<noteq> []
          \<longrightarrow> (\<forall>cfg. calculateConfigForFile env w ''dummy.ts'' = Inr cfg
                  \<longrightarrow> \<not> truthy (opt_prop cfg ''rules''))
              \<and> ?files w)"
  proof (cases "firstWorkspacePath env")
    case None
    then have "\<forall>w ps. workspaceFolders env \<noteq> Some (w # ps)"
      by (auto simp: firstWorkspacePath_def split: option.splits list.splits)
    with None show ?thesis by (simp add: getWorkspaceESLintRules_def)
  next
    case (Some w)
    then obtain ps where folders: "workspaceFolders env = Some (w # ps)"
      by (auto simp: firstWorkspacePath_def split: option.splits list.splits)
    show ?thesis
    proof (cases "w = []")
      case True
      with Some folders show ?thesis by (simp add: getWorkspaceESLintRules_def)
    next
      case nonempty: False
      show ?thesis
      proof (cases "calculateConfigForFile env w ''dummy.ts''")
        case (Inl err)
        then have "getWorkspaceESLintRules env = scanConfigPaths env (getESLintConfigPaths env w)"
          using Some nonempty
          by (simp add: getWorkspaceESLintRules_def getFullESLintConfig_def opt_prop_def)
        then have "getWorkspaceESLintRules env = Inr JNull \<longleftrightarrow> ?files w"
          by (simp only: scan)
        with Inl folders nonempty show ?thesis
          by simp
      next
        case (Inr cfg)
        show ?thesis
        proof (cases "truthy (opt_prop cfg ''rules'')")
          case True
          then have "opt_prop cfg ''rules'' \<noteq> JNull"
            by (rule truthy_not_null)
          with True Inr Some nonempty have "getWorkspaceESLintRules env \<noteq> Inr JNull"
            by (simp add: getWorkspaceESLintRules_def getFullESLintConfig_def)
          with True Inr folders nonempty show ?thesis
            by simp
        next
          case False
          then have "getWorkspaceESLintRules env = scanConfigPaths env (getESLintConfigPaths env w)"
            using Some nonempty Inr
            by (simp add: getWorkspaceESLintRules_def getFullESLintConfig_def)
          then have "getWorkspaceESLintRules env = Inr JNull \<longleftrightarrow> ?files w"
            by (simp only: scan)
          with False Inr folders nonempty show ?thesis
            by simp
        qed
      qed
    qed
  qed
next
  show "(\<forall>f \<in> set [''.eslintrc'', ''.eslintrc.js'', ''.eslintrc.json'', ''.eslintrc.yaml'',
                   ''.eslintrc.yml''].
          \<not> existsSync env (path_join env (getWorkspacePath env d) f))
      \<longrightarrow> getWorkspaceESLintRules_sub env d = Inr JNull"
    using no_candidate_null [of env d] by (rule impI)
next
  show "List.find (existsSync env)
          (map (path_join env (getWorkspacePath env d))
             [''.eslintrc'', ''.eslintrc.js'', ''.eslintrc.json'', ''.eslintrc.yaml'',
              ''.eslintrc.yml'']) = Some q
        \<and> (spawn env ''npx'' [''eslint'', ''--print-config'', q] (getWorkspacePath env d) = ProcError e
            \<or> (spawn env ''npx'' [''eslint'', ''--print-config'', q] (getWorkspacePath env d)
                  = ProcClose (Some code) out
                \<and> (code \<noteq> 0 \<and> code \<noteq> 1
                    \<or> JSON_parse env out = Inl e
                    \<or> (JSON_parse env out = Inr v \<and> \<not> truthy v))))
      \<longrightarrow> getWorkspaceESLintRules_sub env d = Inr JNull"
    unfolding getConfigPath_find [symmetric]
    using probe_fails_null [of env d q e code out v] by (intro impI) (elim conjE)
next
  show "List.find (existsSync env)
          (map (path_join env (getWorkspacePath env d))
             [''.eslintrc'', ''.eslintrc.js'', ''.eslintrc.json'', ''.eslintrc.yaml'',
              ''.eslintrc.yml'']) = Some q
        \<and> q \<noteq> []
        \<and> spawn env ''npx'' [''eslint'', ''--print-config'', q] (getWorkspacePath env d)
            = ProcClose (Some code) out
        \<and> (code = 0 \<or> code = 1)
        \<and> JSON_parse env out = Inr v
        \<and> truthy (opt_prop v ''rules'')
      \<longrightarrow> getWorkspaceESLintRules_sub env d \<noteq> Inr JNull"
    unfolding getConfigPath_find [symmetric]
    using probe_rules_not_null [of env d q code out v] by (intro impI) (elim conjE)
qed


theorem resolve_never_throws_witness:
  \<open>getFullESLintConfig lint_env_broken_files ''/ws'' = Inr JNull
   \<and> parseESLintConfig lint_env_broken_files ''/ws/.eslintrc'' = Inr JNull
   \<and> parseESLintConfig lint_env_broken_files ''/ws/.eslintrc.js'' = Inr JNull
   \<and> parseESLintConfig lint_env_broken_files ''/ws/.eslintrc.json'' = Inr JNull
   \<and> getFullESLintConfig_sub lint_env_no_npx ''/ws'' ''/ws/.eslintrc'' = Inr JNull
   \<and> getFullESLintConfig_sub (lint_env_process (Some 0) ''Oops'') ''/ws'' ''/ws/.eslintrc'' = Inr JNull
   \<and> getWorkspaceESLintRules lint_env0 = Inr JNull
   \<and> getWorkspaceESLintRules lint_env_engine \<noteq> Inr JNull
   \<and> getWorkspaceESLintRules lint_env_broken_files \<noteq> Inr JNull
   \<and> getWorkspaceESLintRules_sub lint_env0 [] = Inr JNull
   \<and> getWorkspaceESLintRules_sub lint_env_no_npx [] = Inr JNull
   \<and> getWorkspaceESLintRules_sub (lint_env_process (Some 2) []) [] = Inr JNull
   \<and> getWorkspaceESLintRules_sub (lint_env_process (Some 0) ''Oops'') [] = Inr JNull
   \<and> getWorkspaceESLintRules_sub (lint_env_process (Some 1) ''{"rules":{"semi":"error"}}'') []
       \<noteq> Inr JNull\<close>
proof -
  have a: "getFullESLintConfig lint_env_broken_files ''/ws'' = Inr JNull"
    by (rule resolve_never_throws [where env = lint_env_broken_files and ws = "''/ws''"
          and e = "Thrown ''No ESLint configuration found''",
          THEN conjunct2, THEN conjunct2, THEN conjunct1, THEN mp])
      (simp add: lint_example_defs)
  have b: "parseESLintConfig lint_env_broken_files ''/ws/.eslintrc'' = Inr JNull"
    by (rule resolve_never_throws [where env = lint_env_broken_files and p = "''/ws/.eslintrc''"
          and e = "Thrown []" and c = "[]",
          THEN conjunct2, THEN conjunct2, THEN conjunct2, THEN conjunct1, THEN mp])
      (simp add: lint_example_defs)
  have c: "parseESLintConfig lint_env_broken_files ''/ws/.eslintrc.js'' = Inr JNull"
    by (rule resolve_never_throws [where env = lint_env_broken_files and p = "''/ws/.eslintrc.js''"
          and e = "Thrown ''SyntaxError''" and c = "''module.exports = {}''",
          THEN conjunct2, THEN conjunct2, THEN conjunct2, THEN conjunct1, THEN mp])
      (simp add: lint_example_defs)
  have d: "parseESLintConfig lint_env_broken_files ''/ws/.eslintrc.json'' = Inr JNull"
    by (rule resolve_never_throws [where env = lint_env_broken_files and p = "''/ws/.eslintrc.json''"
          and e = "Errno ''EACCES''" and c = "[]",
          THEN conjunct2, THEN conjunct2, THEN conjunct2, THEN conjunct1, THEN mp])
      (simp add: lint_example_defs)
  have e: "getFullESLintConfig_sub lint_env_no_npx ''/ws'' ''/ws/.eslintrc'' = Inr JNull"
    by (rule resolve_never_throws [where env = lint_env_no_npx and ws = "''/ws''"
          and p = "''/ws/.eslintrc''" and e = "Errno ''ENOENT''" and c = "[]",
          THEN conjunct2, THEN conjunct2, THEN conjunct2, THEN conjunct2, THEN conjunct1, THEN mp])
      (simp add: lint_defs lint_example_defs)
  have f: "getFullESLintConfig_sub (lint_env_process (Some 0) ''Oops'') ''/ws'' ''/ws/.eslintrc'' = Inr JNull"
    by (rule resolve_never_throws [where env = "lint_env_process (Some 0) ''Oops''" and ws = "''/ws''"
          and p = "''/ws/.eslintrc''" and e = "Thrown ''SyntaxError''" and c = "''Oops''",
          THEN conjunct2, THEN conjunct2, THEN conjunct2, THEN conjunct2, THEN conjunct1, THEN mp])
      (simp add: lint_defs lint_example_defs)
  have g: "getWorkspaceESLintRules lint_env0 = Inr JNull"
    by (rule resolve_never_throws [where env = lint_env0,
          THEN conjunct2, THEN conjunct2, THEN conjunct2, THEN conjunct2, THEN conjunct2,
          THEN conjunct1, THEN iffD2])
      (simp add: lint_example_defs)
  have h: "getWorkspaceESLintRules lint_env_engine \<noteq> Inr JNull"
  proof
    assume "getWorkspaceESLintRules lint_env_engine = Inr JNull"
    then have "\<forall>w ps. workspaceFolders lint_env_engine = Some (w # ps) \<and> w \<noteq> []
          \<longrightarrow> (\<forall>cfg. calculateConfigForFile lint_env_engine w ''dummy.ts'' = Inr cfg
                  \<longrightarrow> \<not> truthy (opt_prop cfg ''rules''))
              \<and> (\<forall>f \<in> set [''.eslintrc'', ''.eslintrc.js'', ''.eslintrc.json'', ''.eslintrc.yaml'',
                              ''.eslintrc.yml'', ''package.json''].
                   \<forall>text v. existsSync lint_env_engine (path_join lint_env_engine w f)
                       \<and> readFileSync lint_env_engine (path_join lint_env_engine w f) = Inr text
                       \<and> JSON_parse lint_env_engine text = Inr v
                     \<longrightarrow> \<not> truthy (opt_prop
                            (if path_basename lint_env_engine (path_join lint_env_engine w f) = ''package.json''
                             then opt_prop v ''eslintConfig'' else v) ''rules''))"
      by (rule resolve_never_throws [where env = lint_env_engine,
            THEN conjunct2, THEN conjunct2, THEN conjunct2, THEN conjunct2, THEN conjunct2,
            THEN conjunct1, THEN iffD1])
    moreover have "workspaceFolders lint_env_engine = Some (''/ws'' # []) \<and> ''/ws'' \<noteq> []"
      by (simp add: lint_example_defs)
    ultimately have "\<forall>cfg. calculateConfigForFile lint_env_engine ''/ws'' ''dummy.ts'' = Inr cfg
        \<longrightarrow> \<not> truthy (opt_prop cfg ''rules'')"
      by blast
    moreover have "calculateConfigForFile lint_env_engine ''/ws'' ''dummy.ts'' = Inr config_semi"
      by (simp add: lint_example_defs)
    ultimately have "\<not> truthy (opt_prop config_semi ''rules'')"
      by blast
    then show False
      by (simp add: opt_prop_def config_semi_def rules_semi_def)
  qed
  have i: "getWorkspaceESLintRules lint_env_broken_files \<noteq> Inr JNull"
  proof
    assume "getWorkspaceESLintRules lint_env_broken_files = Inr JNull"
    then have "\<forall>w ps. workspaceFolders lint_env_broken_files = Some (w # ps) \<and> w \<noteq> []
          \<longrightarrow> (\<forall>cfg. calculateConfigForFile lint_env_broken_files w ''dummy.ts'' = Inr cfg
                  \<longrightarrow> \<not> truthy (opt_prop cfg ''rules''))
              \<and> (\<forall>f \<in> set [''.eslintrc'', ''.eslintrc.js'', ''.eslintrc.json'', ''.eslintrc.yaml'',
                              ''.eslintrc.yml'', ''package.json''].
                   \<forall>text v. existsSync lint_env_broken_files (path_join lint_env_broken_files w f)
                       \<and> readFileSync lint_env_broken_files (path_join lint_env_broken_files w f) = Inr text
                       \<and> JSON_parse lint_env_broken_files text = Inr v
                     \<longrightarrow> \<not> truthy (opt_prop
                            (if path_basename lint_env_broken_files (path_join lint_env_broken_files w f)
                                  = ''package.json''
                             then opt_prop v ''eslintConfig'' else v) ''rules''))"
      by (rule resolve_never_throws [where env = lint_env_broken_files,
            THEN conjunct2, THEN conjunct2, THEN conjunct2, THEN conjunct2, THEN conjunct2,
            THEN conjunct1, THEN iffD1])
    moreover have "workspaceFolders lint_env_broken_files = Some (''/ws'' # []) \<and> ''/ws'' \<noteq> []"
      by (simp add: lint_example_defs)
    ultimately have "\<forall>f \<in> set [''.eslintrc'', ''.eslintrc.js'', ''.eslintrc.json'', ''.eslintrc.yaml'',
                              ''.eslintrc.yml'', ''package.json''].
                   \<forall>text v. existsSync lint_env_broken_files (path_join lint_env_broken_files ''/ws'' f)
                       \<and> readFileSync lint_env_broken_files (path_join lint_env_broken_files ''/ws'' f) = Inr text
                       \<and> JSON_parse lint_env_broken_files text = Inr v
                     \<longrightarrow> \<not> truthy (opt_prop
                            (if path_basename lint_env_broken_files (path_join lint_env_broken_files ''/ws'' f)
                                  = ''package.json''
                             then opt_prop v ''eslintConfig'' else v) ''rules'')"
      by blast
    then show False
      by (simp add: lint_example_defs opt_prop_def)
  qed
  have j: "getWorkspaceESLintRules_sub lint_env0 [] = Inr JNull"
    by (rule resolve_never_throws [where env = lint_env0 and d = "[]",
          THEN conjunct2, THEN conjunct2, THEN conjunct2, THEN conjunct2, THEN conjunct2,
          THEN conjunct2, THEN conjunct1, THEN mp])
      (simp add: lint_example_defs)
  have k: "getWorkspaceESLintRules_sub lint_env_no_npx [] = Inr JNull"
    by (rule resolve_never_throws [where env = lint_env_no_npx and d = "[]"
          and q = "''/ws/.eslintrc''" and e = "Errno ''ENOENT''" and code = 0 and out = "[]" and v = JNull,
          THEN conjunct2, THEN conjunct2, THEN conjunct2, THEN conjunct2, THEN conjunct2,
          THEN conjunct2, THEN conjunct2, THEN conjunct1, THEN mp])
      (simp add: lint_example_defs)
  have l: "getWorkspaceESLintRules_sub (lint_env_process (Some 2) []) [] = Inr JNull"
    by (rule resolve_never_throws [where env = "lint_env_process (Some 2) []" and d = "[]"
          and q = "''/ws/.eslintrc''" and e = "Thrown []" and code = 2 and out = "[]" and v = JNull,
          THEN conjunct2, THEN conjunct2, THEN conjunct2, THEN conjunct2, THEN conjunct2,
          THEN conjunct2, THEN conjunct2, THEN conjunct1, THEN mp])
      (simp add: lint_example_defs)
  have m: "getWorkspaceESLintRules_sub (lint_env_process (Some 0) ''Oops'') [] = Inr JNull"
    by (rule resolve_never_throws [where env = "lint_env_process (Some 0) ''Oops''" and d = "[]"
          and q = "''/ws/.eslintrc''" and e = "Thrown ''SyntaxError''" and code = 0 and out = "''Oops''"
          and v = JNull,
          THEN conjunct2, THEN conjunct2, THEN conjunct2, THEN conjunct2, THEN conjunct2,
          THEN conjunct2, THEN conjunct2, THEN conjunct1, THEN mp])
      (simp add: lint_example_defs)
  have n: \<open>getWorkspaceESLintRules_sub (lint_env_process (Some 1) ''{"rules":{"semi":"error"}}'') []
       \<noteq> Inr JNull\<close>
    by (rule resolve_never_throws [where env = \<open>lint_env_process (Some 1) ''{"rules":{"semi":"error"}}''\<close>
          and d = "[]" and q = "''/ws/.eslintrc''" and code = 1
          and out = \<open>''{"rules":{"semi":"error"}}''\<close> and v = config_semi,
          THEN conjunct2, THEN conjunct2, THEN conjunct2, THEN conjunct2, THEN conjunct2,
          THEN conjunct2, THEN conjunct2, THEN conjunct2, THEN mp])
      (simp add: lint_example_defs opt_prop_def)
  from a b c d e f g h i j k l m n show ?thesis
    by (intro conjI)
qed

text \<open>
  C4. \<open>runCommand\<close> resolves with the captured standard output when the child exits
  with code 0 or 1, and is rejected on every other exit code and on a spawn error;
  \<open>getFullESLintConfig\<close> turns the rejection into \<open>null\<close>, and the resolver then
  returns \<open>null\<close> instead of throwing.
\<close>

theorem runCommand_exit_code_policy:
  "(spawn env command options projectFolder = ProcClose (Some code) output \<and> (code = 0 \<or> code = 1)
      \<longrightarrow> runCommand env command options projectFolder = Inr output)
   \<and> (spawn env command options projectFolder = ProcClose (Some code) output \<and> code \<noteq> 0 \<and> code \<noteq> 1
      \<longrightarrow> (\<exists>e. runCommand env command options projectFolder = Inl e))
   \<and> (spawn env command options projectFolder = ProcError err
      \<longrightarrow> runCommand env command options projectFolder = Inl err)
   \<and> ((\<exists>e. runCommand env ''npx'' [''eslint'', ''--print-config'', filePath] workspacePath = Inl e)
      \<longrightarrow> getFullESLintConfig_sub env workspacePath filePath = Inr JNull)
   \<and> (getConfigPath env (getWorkspacePath env defaultCwdPath) = Some filePath
       \<and> (\<exists>e. runCommand env ''npx'' [''eslint'', ''--print-config'', filePath]
                 (getWorkspacePath env defaultCwdPath) = Inl e)
      \<longrightarrow> getWorkspaceESLintRules_sub env defaultCwdPath = Inr JNull)"
  by (auto simp: runCommand_def Number_of_code_def getFullESLintConfig_sub_def
        getWorkspaceESLintRules_sub_def Let_def)

theorem runCommand_exit_code_policy_witness:
  "runCommand (lint_env_process (Some 0) ''{}'') ''npx'' [''eslint''] ''/ws'' = Inr ''{}''
   \<and> runCommand (lint_env_process (Some 1) ''{}'') ''npx'' [''eslint''] ''/ws'' = Inr ''{}''
   \<and> (\<exists>e. runCommand (lint_env_process (Some 2) ''{}'') ''npx''
             [''eslint'', ''--print-config'', ''/ws/.eslintrc''] ''/ws'' = Inl e)
   \<and> getFullESLintConfig_sub (lint_env_process (Some 2) ''{}'') ''/ws'' ''/ws/.eslintrc'' = Inr JNull
   \<and> getWorkspaceESLintRules_sub (lint_env_process (Some 2) ''{}'') [] = Inr JNull
   \<and> runCommand lint_env_no_npx ''npx'' [''eslint'', ''--print-config'', ''/ws/.eslintrc''] ''/ws''
       = Inl (Errno ''ENOENT'')
   \<and> getWorkspaceESLintRules_sub lint_env_no_npx [] = Inr JNull"
proof -
  have s0: "spawn (lint_env_process (Some 0) ''{}'') ''npx'' [''eslint''] ''/ws'' = ProcClose (Some 0) ''{}''"
    by (simp add: lint_example_defs)
  have s1: "spawn (lint_env_process (Some 1) ''{}'') ''npx'' [''eslint''] ''/ws'' = ProcClose (Some 1) ''{}''"
    by (simp add: lint_example_defs)
  have s2: "spawn (lint_env_process (Some 2) ''{}'') ''npx''
      [''eslint'', ''--print-config'', ''/ws/.eslintrc''] ''/ws'' = ProcClose (Some 2) ''{}''"
    by (simp add: lint_example_defs)
  have s3: "spawn lint_env_no_npx ''npx'' [''eslint'', ''--print-config'', ''/ws/.eslintrc''] ''/ws''
      = ProcError (Errno ''ENOENT'')"
    by (simp add: lint_example_defs)
  have w2: "getWorkspacePath (lint_env_process (Some 2) ''{}'') [] = ''/ws''"
    by (simp add: lint_example_defs)
  have p2: "getConfigPath (lint_env_process (Some 2) ''{}'') ''/ws'' = Some ''/ws/.eslintrc''"
    by (simp add: lint_defs lint_example_defs)
  have w3: "getWorkspacePath lint_env_no_npx [] = ''/ws''"
    by (simp add: lint_example_defs)
  have p3: "getConfigPath lint_env_no_npx ''/ws'' = Some ''/ws/.eslintrc''"
    by (simp add: lint_defs lint_example_defs)
  have r0: "runCommand (lint_env_process (Some 0) ''{}'') ''npx'' [''eslint''] ''/ws'' = Inr ''{}''"
    using s0 runCommand_exit_code_policy [of "lint_env_process (Some 0) ''{}''" "''npx''" "[''eslint'']"
        "''/ws''" 0 "''{}''"]
    by simp
  have r1: "runCommand (lint_env_process (Some 1) ''{}'') ''npx'' [''eslint''] ''/ws'' = Inr ''{}''"
    using s1 runCommand_exit_code_policy [of "lint_env_process (Some 1) ''{}''" "''npx''" "[''eslint'']"
        "''/ws''" 1 "''{}''"]
    by simp
  have r2: "(\<exists>e. runCommand (lint_env_process (Some 2) ''{}'') ''npx''
             [''eslint'', ''--print-config'', ''/ws/.eslintrc''] ''/ws'' = Inl e)
      \<and> getFullESLintConfig_sub (lint_env_process (Some 2) ''{}'') ''/ws'' ''/ws/.eslintrc'' = Inr JNull
      \<and> getWorkspaceESLintRules_sub (lint_env_process (Some 2) ''{}'') [] = Inr JNull"
    using s2 w2 p2 runCommand_exit_code_policy [of "lint_env_process (Some 2) ''{}''" "''npx''"
        "[''eslint'', ''--print-config'', ''/ws/.eslintrc'']" "''/ws''" 2 "''{}''" "Thrown []"
        "''/ws/.eslintrc''" "''/ws''" "[]"]
    by simp
  have r3: "runCommand lint_env_no_npx ''npx'' [''eslint'', ''--print-config'', ''/ws/.eslintrc''] ''/ws''
       = Inl (Errno ''ENOENT'')
      \<and> getWorkspaceESLintRules_sub lint_env_no_npx [] = Inr JNull"
    using s3 w3 p3 runCommand_exit_code_policy [of lint_env_no_npx "''npx''"
        "[''eslint'', ''--print-config'', ''/ws/.eslintrc'']" "''/ws''" 0 "[]" "Errno ''ENOENT''"
        "''/ws/.eslintrc''" "''/ws''" "[]"]
    by simp
  from r0 r1 r2 r3 show ?thesis by simp
qed

section \<open>Custom instructions: what the aggregator returns\<close>

lemmas instr_example_defs =
  instr_env0_def instr_env_flat_def instr_env_nested_def instr_env_unreadable_dir_def
  instr_env_unreadable_file_def instr_env_files_def simple_join_def simple_resolve_def

lemma strip_leading_Nil: "strip_leading seqs [] = []"
proof -
  have "match_len seqs [] = 0"
    by (auto simp: match_len_def find_Some_iff split: option.split)
  then show ?thesis
    by (subst strip_leading.simps) simp
qed

lemma trim_Nil [simp]: "trim [] = []"
  by (simp add: trim_def strip_leading_Nil)

lemma match_len_white_space_all:
  "\<forall>w \<in> set white_space. match_len white_space (w @ rest) = length w"
  by (simp add: white_space_def match_len_def)

lemma match_len_white_space:
  "w \<in> set white_space \<Longrightarrow> match_len white_space (w @ rest) = length w"
  using match_len_white_space_all by blast

lemma white_space_nonempty: "w \<in> set white_space \<Longrightarrow> w \<noteq> []"
  by (auto simp: white_space_def)

lemma strip_leading_white_space:
  "set ws \<subseteq> set white_space \<Longrightarrow> strip_leading white_space (concat ws) = []"
proof (induction ws)
  case Nil
  show ?case by (simp add: strip_leading_Nil)
next
  case (Cons w ws)
  then have w: "w \<in> set white_space" and IH: "strip_leading white_space (concat ws) = []"
    by auto
  have len: "match_len white_space (w @ concat ws) = length w"
    using w by (rule match_len_white_space)
  have "w \<noteq> []"
    using w by (rule white_space_nonempty)
  with len IH show ?case
    by (subst strip_leading.simps) simp
qed

text \<open>A string made of white space only is trimmed to the empty string.\<close>

lemma trim_white_space: "set ws \<subseteq> set white_space \<Longrightarrow> trim (concat ws) = []"
  by (simp add: trim_def strip_leading_white_space strip_leading_Nil)

lemmas trim_eval = trim_def strip_leading.simps match_len_def white_space_def

lemma js_join_nonempty: "x \<in> set xs \<Longrightarrow> x \<noteq> [] \<Longrightarrow> js_join sep xs \<noteq> []"
  by (induction sep xs rule: js_join.induct) auto

lemma safeReadFile_absent:
  assumes "fileExistsAtPath env (path_join env cwd file) = Inr False"
  shows "safeReadFile env file cwd = Inr []"
  using assms by (simp add: safeReadFile_def)

lemma loadRuleFiles_absent:
  assumes "\<forall>file \<in> set [''.clinerules'', ''.cursorrules'', ''.windsurfrules''].
             fileExistsAtPath env (path_join env cwd file) = Inr False"
  shows "loadRuleFiles env cwd = Inr []"
proof -
  have "safeReadFile env ''.clinerules'' cwd = Inr []"
    and "safeReadFile env ''.cursorrules'' cwd = Inr []"
    and "safeReadFile env ''.windsurfrules'' cwd = Inr []"
    using assms by (simp_all add: safeReadFile_absent)
  then show ?thesis by (simp add: loadRuleFiles_def)
qed

text \<open>
  With no rule file on disk the sections are the language line, the global and the
  mode instructions, and a rules block that holds the ignore instructions alone.
\<close>

lemma sections_without_rule_files:
  assumes "\<forall>file \<in> set [''.clinerules-'' @ mode, ''.clinerules'', ''.cursorrules'', ''.windsurfrules''].
             fileExistsAtPath env (path_join env cwd file) = Inr False"
  shows "customInstructionSections env m g cwd mode options =
     Inr ((case language options of
             None \<Rightarrow> []
           | Some lang \<Rightarrow> if lang \<noteq> [] then [languageSection env lang] else [])
          @ (if trim g \<noteq> [] then [''Global Instructions:\<newline>'' @ trim g] else [])
          @ (if trim m \<noteq> [] then [''Mode-specific Instructions:\<newline>'' @ trim m] else [])
          @ (case rooIgnoreInstructions options of
               None \<Rightarrow> []
             | Some r \<Rightarrow> if r \<noteq> [] then [''Rules:\<newline>\<newline>'' @ r] else []))"
proof -
  have mode_file: "(if mode \<noteq> [] then safeReadFile env (''.clinerules-'' @ mode) cwd else Inr []) = Inr []"
    using assms by (simp add: safeReadFile_absent)
  have generic: "loadRuleFiles env cwd = Inr []"
    using assms by (simp add: loadRuleFiles_absent)
  show ?thesis
    unfolding customInstructionSections_def mode_file generic
    by (simp split: option.split)
qed

text \<open>
  C5. With no language option, global and mode instructions that are empty or hold
  white space only (any sequence of the white space that \<open>trim\<close> removes, the
  no-break space, the byte order mark and the Unicode separators included), no ignore
  instructions and none of the rule files on disk, \<open>addCustomInstructions\<close> returns
  exactly the empty string.
\<close>

theorem no_sources_empty_document:
  assumes "language options \<in> {None, Some []}"
    and "globalCustomInstructions = concat gs \<and> set gs \<subseteq> set white_space"
    and "modeCustomInstructions = concat ms \<and> set ms \<subseteq> set white_space"
    and "rooIgnoreInstructions options \<in> {None, Some []}"
    and "\<forall>file \<in> set [''.clinerules-'' @ mode, ''.clinerules'', ''.cursorrules'', ''.windsurfrules''].
           fileExistsAtPath env (path_join env cwd file) = Inr False"
  shows "addCustomInstructions env modeCustomInstructions globalCustomInstructions cwd mode options
         = Inr []"
proof -
  have g: "trim globalCustomInstructions = []" and m: "trim modeCustomInstructions = []"
    using assms(2,3) by (simp_all add: trim_white_space)
  have "customInstructionSections env modeCustomInstructions globalCustomInstructions cwd mode options
        = Inr []"
    using assms(1,4) by (auto simp: sections_without_rule_files [OF assms(5)] g m)
  then show ?thesis by (simp add: addCustomInstructions_def)
qed

theorem no_sources_empty_document_witness:
  "addCustomInstructions instr_env0 ''  ''
     [CHR ''\<newline>'', CHR 0xC2, CHR 0xA0, CHR 0xEF, CHR 0xBB, CHR 0xBF, CHR 0x09]
     ''/ws'' ''code'' \<lparr> language = None, rooIgnoreInstructions = None \<rparr> = Inr []"
proof -
  have l: "language \<lparr> language = None, rooIgnoreInstructions = None \<rparr> \<in> {None, Some []}"
    by simp
  have g: "[CHR ''\<newline>'', CHR 0xC2, CHR 0xA0, CHR 0xEF, CHR 0xBB, CHR 0xBF, CHR 0x09]
        = concat [[CHR 0x0A], [CHR 0xC2, CHR 0xA0], [CHR 0xEF, CHR 0xBB, CHR 0xBF], [CHR 0x09]]
      \<and> set [[CHR 0x0A], [CHR 0xC2, CHR 0xA0], [CHR 0xEF, CHR 0xBB, CHR 0xBF], [CHR 0x09]]
          \<subseteq> set white_space"
    by (simp add: white_space_def)
  have m: "''  '' = concat [[CHR 0x20], [CHR 0x20]] \<and> set [[CHR 0x20], [CHR 0x20]] \<subseteq> set white_space"
    by (simp add: white_space_def)
  have r: "rooIgnoreInstructions \<lparr> language = None, rooIgnoreInstructions = None \<rparr> \<in> {None, Some []}"
    by simp
  have f: "\<forall>file \<in> set [''.clinerules-'' @ ''code'', ''.clinerules'', ''.cursorrules'', ''.windsurfrules''].
           fileExistsAtPath instr_env0 (path_join instr_env0 ''/ws'' file) = Inr False"
    by (simp add: instr_example_defs)
  show ?thesis
    by (rule no_sources_empty_document [OF l g m r f])
qed

text \<open>
  C6. With the language option \<open>fr\<close> and nothing else, the document is the banner
  followed by exactly one section, the language-preference line; the line names the
  entry of \<open>LANGUAGES\<close> for \<open>fr\<close>, or \<open>fr\<close> itself when the table has no (or an empty)
  entry; the banner starts with the \<open>====\<close> line followed by
  \<open>USER'S CUSTOM INSTRUCTIONS\<close>.
\<close>

theorem language_only_document:
  assumes "language options = Some ''fr''"
    and "globalCustomInstructions = concat gs \<and> set gs \<subseteq> set white_space"
    and "modeCustomInstructions = concat ms \<and> set ms \<subseteq> set white_space"
    and "rooIgnoreInstructions options \<in> {None, Some []}"
    and "\<forall>file \<in> set [''.clinerules-'' @ mode, ''.clinerules'', ''.cursorrules'', ''.windsurfrules''].
           fileExistsAtPath env (path_join env cwd file) = Inr False"
  shows \<open>customInstructionSections env modeCustomInstructions globalCustomInstructions cwd mode options
           = Inr [languageSection env ''fr'']
         \<and> addCustomInstructions env modeCustomInstructions globalCustomInstructions cwd mode options
           = Inr (banner @ languageSection env ''fr'')
         \<and> languageSection env ''fr'' =
             ''Language Preference:\<newline>You should always speak and think in the "''
             @ (case LANGUAGES env ''fr'' of None \<Rightarrow> ''fr'' | Some n \<Rightarrow> if n \<noteq> [] then n else ''fr'')
             @ ''" (fr) language unless the user gives you instructions below to do otherwise.''
         \<and> take 35 banner = ''\<newline>====\<newline>\<newline>USER'S CUSTOM INSTRUCTIONS\<newline>\<newline>''\<close>
proof -
  have g: "trim globalCustomInstructions = []" and m: "trim modeCustomInstructions = []"
    using assms(2,3) by (simp_all add: trim_white_space)
  have sections: "customInstructionSections env modeCustomInstructions globalCustomInstructions cwd mode options
        = Inr [languageSection env ''fr'']"
    using assms(1,4) by (auto simp: sections_without_rule_files [OF assms(5)] g m)
  have nonempty: "languageSection env ''fr'' \<noteq> []"
    by (simp add: languageSection_def Let_def)
  have doc: "addCustomInstructions env modeCustomInstructions globalCustomInstructions cwd mode options
           = Inr (banner @ languageSection env ''fr'')"
    using nonempty by (simp add: addCustomInstructions_def sections)
  have line: \<open>languageSection env ''fr'' =
             ''Language Preference:\<newline>You should always speak and think in the "''
             @ (case LANGUAGES env ''fr'' of None \<Rightarrow> ''fr'' | Some n \<Rightarrow> if n \<noteq> [] then n else ''fr'')
             @ ''" (fr) language unless the user gives you instructions below to do otherwise.''\<close>
    by (simp add: languageSection_def Let_def)
  have head: "take 35 banner = ''\<newline>====\<newline>\<newline>USER'S CUSTOM INSTRUCTIONS\<newline>\<newline>''"
    by (simp add: banner_def)
  from sections doc line head show ?thesis by blast
qed

theorem language_only_document_witness:
  \<open>addCustomInstructions instr_env0 [] [] ''/ws'' ''code''
     \<lparr> language = Some ''fr'', rooIgnoreInstructions = None \<rparr>
   = Inr (banner @ ''Language Preference:\<newline>You should always speak and think in the "Fran''
            @ [CHR 0xC3, CHR 0xA7]
            @ ''ais" (fr) language unless the user gives you instructions below to do otherwise.'')\<close>
proof -
  have l: "language \<lparr> language = Some ''fr'', rooIgnoreInstructions = None \<rparr> = Some ''fr''"
    by simp
  have g: "[] = concat [] \<and> set [] \<subseteq> set white_space"
    by simp
  have r: "rooIgnoreInstructions \<lparr> language = Some ''fr'', rooIgnoreInstructions = None \<rparr> \<in> {None, Some []}"
    by simp
  have f: "\<forall>file \<in> set [''.clinerules-'' @ ''code'', ''.clinerules'', ''.cursorrules'', ''.windsurfrules''].
           fileExistsAtPath instr_env0 (path_join instr_env0 ''/ws'' file) = Inr False"
    by (simp add: instr_example_defs)
  have table: "LANGUAGES instr_env0 ''fr'' = Some (''Fran'' @ [CHR 0xC3, CHR 0xA7] @ ''ais'')"
    by (simp add: instr_env0_def)
  show ?thesis
    using language_only_document [OF l g g r f] table by simp
qed





text \<open>
  C7. When the global and the mode instructions, the mode's rule file, the ignore
  instructions and the generic rule files are all non-empty, the document is the
  banner, then the language line (when a language is given), the global
  instructions, the mode instructions and one rules block that holds the mode's rule
  file, the ignore instructions and the generic rules in this order, each joined to
  the next by a blank line.
\<close>

theorem sections_in_fixed_order:
  assumes "mode \<noteq> []"
    and "safeReadFile env (''.clinerules-'' @ mode) cwd = Inr modeRuleContent"
    and "trim modeRuleContent \<noteq> []"
    and "loadRuleFiles env cwd = Inr genericRuleContent"
    and "trim genericRuleContent \<noteq> []"
    and "trim globalCustomInstructions \<noteq> []"
    and "trim modeCustomInstructions \<noteq> []"
    and "rooIgnoreInstructions options = Some r" and "r \<noteq> []"
  shows "addCustomInstructions env modeCustomInstructions globalCustomInstructions cwd mode options
         = Inr (banner
                @ (case language options of
                     None \<Rightarrow> []
                   | Some lang \<Rightarrow> if lang \<noteq> [] then languageSection env lang @ ''\<newline>\<newline>'' else [])
                @ ''Global Instructions:\<newline>'' @ trim globalCustomInstructions @ ''\<newline>\<newline>''
                @ ''Mode-specific Instructions:\<newline>'' @ trim modeCustomInstructions @ ''\<newline>\<newline>''
                @ ''Rules:\<newline>\<newline>''
                @ ''# Rules from .clinerules-'' @ mode @ '':\<newline>'' @ modeRuleContent @ ''\<newline>\<newline>''
                @ r @ ''\<newline>\<newline>''
                @ trim genericRuleContent)"
proof -
  have mc: "modeRuleContent \<noteq> []" and gc: "genericRuleContent \<noteq> []"
    using assms(3,5) by auto
  let ?tail = "[''Global Instructions:\<newline>'' @ trim globalCustomInstructions,
                ''Mode-specific Instructions:\<newline>'' @ trim modeCustomInstructions,
                ''Rules:\<newline>\<newline>'' @ js_join ''\<newline>\<newline>''
                   [''# Rules from '' @ (''.clinerules-'' @ mode) @ '':\<newline>'' @ modeRuleContent,
                    r, trim genericRuleContent]]"
  let ?lang = "(case language options of
                  None \<Rightarrow> []
                | Some lang \<Rightarrow> if lang \<noteq> [] then [languageSection env lang] else [])"
  have sections: "customInstructionSections env modeCustomInstructions globalCustomInstructions cwd mode options
      = Inr (?lang @ ?tail)"
    using assms mc gc by (simp add: customInstructionSections_def)
  have "''Global Instructions:\<newline>'' @ trim globalCustomInstructions \<in> set (?lang @ ?tail)"
    by simp
  then have nonempty: "js_join ''\<newline>\<newline>'' (?lang @ ?tail) \<noteq> []"
    by (rule js_join_nonempty) simp
  have doc: "addCustomInstructions env modeCustomInstructions globalCustomInstructions cwd mode options
      = Inr (banner @ js_join ''\<newline>\<newline>'' (?lang @ ?tail))"
    using nonempty by (simp add: addCustomInstructions_def sections)
  show ?thesis
    unfolding doc by (simp split: option.split)
qed

theorem sections_in_fixed_order_witness:
  \<open>addCustomInstructions instr_env_files '' Prefer small functions. '' ''Answer in short sentences.\<newline>''
     ''/ws'' ''code'' \<lparr> language = Some ''en'', rooIgnoreInstructions = Some ''Never read dist/.'' \<rparr>
   = Inr (banner @ ''Language Preference:\<newline>You should always speak and think in the "English" (en) language unless the user gives you instructions below to do otherwise.\<newline>\<newline>Global Instructions:\<newline>Answer in short sentences.\<newline>\<newline>Mode-specific Instructions:\<newline>Prefer small functions.\<newline>\<newline>Rules:\<newline>\<newline># Rules from .clinerules-code:\<newline># .clinerules-code\<newline>\<newline>The following is provided by a root-level .clinerules-code file where the user has specified instructions for this working directory (/ws)\<newline>\<newline>Use tabs.\<newline>\<newline>Never read dist/.\<newline>\<newline># .clinerules\<newline>\<newline>The following is provided by a root-level .clinerules file where the user has specified instructions for this working directory (/ws)\<newline>\<newline>Be brief.'')\<close>
proof -
  have mode: "''code'' \<noteq> []"
    by simp
  have mode_file: "safeReadFile instr_env_files (''.clinerules-'' @ ''code'') ''/ws''
      = Inr ''# .clinerules-code\<newline>\<newline>The following is provided by a root-level .clinerules-code file where the user has specified instructions for this working directory (/ws)\<newline>\<newline>Use tabs.''"
    by (simp add: safeReadFile_def instr_example_defs trim_eval)
  have mode_trim: "trim ''# .clinerules-code\<newline>\<newline>The following is provided by a root-level .clinerules-code file where the user has specified instructions for this working directory (/ws)\<newline>\<newline>Use tabs.'' \<noteq> []"
    by (simp add: trim_eval)
  have generic: "loadRuleFiles instr_env_files ''/ws''
      = Inr ''\<newline># .clinerules\<newline>\<newline>The following is provided by a root-level .clinerules file where the user has specified instructions for this working directory (/ws)\<newline>\<newline>Be brief.\<newline>''"
    by (simp add: loadRuleFiles_def safeReadFile_def instr_example_defs trim_eval)
  have generic_trim: "trim ''\<newline># .clinerules\<newline>\<newline>The following is provided by a root-level .clinerules file where the user has specified instructions for this working directory (/ws)\<newline>\<newline>Be brief.\<newline>''
      = ''# .clinerules\<newline>\<newline>The following is provided by a root-level .clinerules file where the user has specified instructions for this working directory (/ws)\<newline>\<newline>Be brief.''"
    by (simp add: trim_eval)
  have generic_ne: "trim ''\<newline># .clinerules\<newline>\<newline>The following is provided by a root-level .clinerules file where the user has specified instructions for this working directory (/ws)\<newline>\<newline>Be brief.\<newline>'' \<noteq> []"
    unfolding generic_trim by simp
  have g: "trim ''Answer in short sentences.\<newline>'' = ''Answer in short sentences.''"
    by (simp add: trim_eval)
  have g_ne: "trim ''Answer in short sentences.\<newline>'' \<noteq> []"
    unfolding g by simp
  have m: "trim '' Prefer small functions. '' = ''Prefer small functions.''"
    by (simp add: trim_eval)
  have m_ne: "trim '' Prefer small functions. '' \<noteq> []"
    unfolding m by simp
  have r: "rooIgnoreInstructions \<lparr> language = Some ''en'', rooIgnoreInstructions = Some ''Never read dist/.'' \<rparr>
      = Some ''Never read dist/.''"
    by simp
  have r_ne: "''Never read dist/.'' \<noteq> []"
    by simp
  have line: \<open>languageSection instr_env_files ''en'' = ''Language Preference:\<newline>You should always speak and think in the "English" (en) language unless the user gives you instructions below to do otherwise.''\<close>
    by (simp add: languageSection_def instr_example_defs)
  show ?thesis
    using sections_in_fixed_order [OF mode mode_file mode_trim generic generic_ne g_ne m_ne r r_ne]
    unfolding g m generic_trim
    by (simp add: line)
qed

text \<open>
  A flat rules directory: \<open>.clinerules/\<close> holding \<open>a.md\<close> ("A") and \<open>b.md\<close> ("B") gives
  one block labelled with the directory, holding both contents, each under its
  resolved path.
\<close>

lemma flat_rules_directory_example:
  "loadRuleFiles instr_env_flat ''/ws'' = Inr ''\<newline># .clinerules/\<newline>\<newline>The following is provided by a root-level .clinerules/ directory where the user has specified instructions for this working directory (/ws)\<newline>\<newline>/ws/.clinerules/a.md:\<newline>A\<newline>\<newline>/ws/.clinerules/b.md:\<newline>B\<newline>''"
  by (simp add: loadRuleFiles_def safeReadFile_def readRulesDirectory_def instr_example_defs
      trim_eval)

text \<open>
  C8 (the code breaks it on nested files). \<open>.clinerules/\<close> holds the regular file
  \<open>sub/c.md\<close> ("C"), which the recursive listing reports as the entry \<open>c.md\<close> of the
  directory \<open>/ws/.clinerules/sub\<close>. The code resolves the entry's base name against
  \<open>/ws/.clinerules\<close>, reads \<open>/ws/.clinerules/c.md\<close>, which does not exist, and the whole
  directory contributes nothing: no block for \<open>c.md\<close>, no block for the directory.
\<close>

theorem nested_rule_file_lost:
  "readdir instr_env_nested ''/ws/.clinerules''
     = Inr [\<lparr> dirent_name = ''sub'', dirent_parentPath = ''/ws/.clinerules'', dirent_isFile = False \<rparr>,
            \<lparr> dirent_name = ''c.md'', dirent_parentPath = ''/ws/.clinerules/sub'', dirent_isFile = True \<rparr>]
   \<and> readFile instr_env_nested ''/ws/.clinerules/sub/c.md'' = Inr ''C''
   \<and> readRuleFiles instr_env_nested ''/ws/.clinerules'' [''/ws/.clinerules/c.md''] = Inl (Errno ''ENOENT'')
   \<and> readRulesDirectory instr_env_nested ''.clinerules'' ''/ws'' ''/ws/.clinerules'' = Inl (Errno ''ENOENT'')
   \<and> safeReadFile instr_env_nested ''.clinerules'' ''/ws'' = Inr []
   \<and> loadRuleFiles instr_env_nested ''/ws'' = Inr []"
  by (simp add: loadRuleFiles_def safeReadFile_def readRulesDirectory_def instr_example_defs)

text \<open>
  C9, as stated, fails. \<open>.clinerules\<close> is a directory that cannot be listed
  (\<open>EACCES\<close>): the error does not reach the caller, the directory contributes the
  empty string.
\<close>

theorem directory_error_swallowed_counterexample:
  "fileExistsAtPath instr_env_unreadable_dir ''/ws/.clinerules'' = Inr True
   \<and> isDirectory instr_env_unreadable_dir ''/ws/.clinerules'' = Inr True
   \<and> readdir instr_env_unreadable_dir ''/ws/.clinerules'' = Inl (Errno ''EACCES'')
   \<and> safeReadFile instr_env_unreadable_dir ''.clinerules'' ''/ws'' = Inr []
   \<and> loadRuleFiles instr_env_unreadable_dir ''/ws'' = Inr []"
  by (simp add: loadRuleFiles_def safeReadFile_def readRulesDirectory_def instr_example_defs)

text \<open>
  C9, amended. An error of the existence check, of the directory check or of the
  read of a single rule file is swallowed, the source contributing the empty string,
  exactly when its code is \<open>ENOENT\<close> or \<open>EISDIR\<close>; any other error is thrown on by
  \<open>safeReadFile\<close>, and by \<open>loadRuleFiles\<close> for the first of its three files that
  throws. Inside a rules directory every error, whatever its code, of the listing or
  of the read of a listed file is caught: the directory contributes the empty string.
\<close>

theorem safeReadFile_error_policy:
  "(fileExistsAtPath env (path_join env cwd file) = Inl err
      \<or> (fileExistsAtPath env (path_join env cwd file) = Inr True
          \<and> isDirectory env (path_join env cwd file) = Inl err)
      \<or> (fileExistsAtPath env (path_join env cwd file) = Inr True
          \<and> isDirectory env (path_join env cwd file) = Inr False
          \<and> readFile env (path_join env cwd file) = Inl err)
     \<longrightarrow> safeReadFile env file cwd =
           (if err \<in> {Errno ''ENOENT'', Errno ''EISDIR''} then Inr [] else Inl err))
   \<and> (fileExistsAtPath env (path_join env cwd file) = Inr True
        \<and> isDirectory env (path_join env cwd file) = Inr True
        \<and> readRulesDirectory env file cwd (path_join env cwd file) = Inl err
     \<longrightarrow> safeReadFile env file cwd = Inr [])
   \<and> (safeReadFile env ''.clinerules'' cwd = Inl err
        \<or> (safeReadFile env ''.clinerules'' cwd = Inr a
            \<and> safeReadFile env ''.cursorrules'' cwd = Inl err)
        \<or> (safeReadFile env ''.clinerules'' cwd = Inr a
            \<and> safeReadFile env ''.cursorrules'' cwd = Inr b
            \<and> safeReadFile env ''.windsurfrules'' cwd = Inl err)
     \<longrightarrow> loadRuleFiles env cwd = Inl err)"
proof (intro conjI impI)
  assume "fileExistsAtPath env (path_join env cwd file) = Inl err
      \<or> (fileExistsAtPath env (path_join env cwd file) = Inr True
          \<and> isDirectory env (path_join env cwd file) = Inl err)
      \<or> (fileExistsAtPath env (path_join env cwd file) = Inr True
          \<and> isDirectory env (path_join env cwd file) = Inr False
          \<and> readFile env (path_join env cwd file) = Inl err)"
  then have "safeReadFile env file cwd = rethrowUnlessAbsent err"
    by (auto simp: safeReadFile_def)
  moreover have "rethrowUnlessAbsent err =
      (if err \<in> {Errno ''ENOENT'', Errno ''EISDIR''} then Inr [] else Inl err)"
    by (cases err) (auto simp: rethrowUnlessAbsent_def)
  ultimately show "safeReadFile env file cwd =
      (if err \<in> {Errno ''ENOENT'', Errno ''EISDIR''} then Inr [] else Inl err)"
    by simp
next
  assume "fileExistsAtPath env (path_join env cwd file) = Inr True
        \<and> isDirectory env (path_join env cwd file) = Inr True
        \<and> readRulesDirectory env file cwd (path_join env cwd file) = Inl err"
  then show "safeReadFile env file cwd = Inr []"
    by (simp add: safeReadFile_def)
next
  assume "safeReadFile env ''.clinerules'' cwd = Inl err
        \<or> (safeReadFile env ''.clinerules'' cwd = Inr a
            \<and> safeReadFile env ''.cursorrules'' cwd = Inl err)
        \<or> (safeReadFile env ''.clinerules'' cwd = Inr a
            \<and> safeReadFile env ''.cursorrules'' cwd = Inr b
            \<and> safeReadFile env ''.windsurfrules'' cwd = Inl err)"
  then show "loadRuleFiles env cwd = Inl err"
    by (auto simp: loadRuleFiles_def)
qed

theorem safeReadFile_error_policy_witness:
  "safeReadFile instr_env_unreadable_file ''.clinerules'' ''/ws'' = Inl (Errno ''EACCES'')
   \<and> loadRuleFiles instr_env_unreadable_file ''/ws'' = Inl (Errno ''EACCES'')
   \<and> safeReadFile instr_env_unreadable_file ''.cursorrules'' ''/ws'' = Inr []
   \<and> safeReadFile instr_env_unreadable_dir ''.clinerules'' ''/ws'' = Inr []"
proof -
  have denied: "fileExistsAtPath instr_env_unreadable_file (path_join instr_env_unreadable_file ''/ws'' ''.clinerules'')
        = Inr True
      \<and> isDirectory instr_env_unreadable_file (path_join instr_env_unreadable_file ''/ws'' ''.clinerules'')
        = Inr False
      \<and> readFile instr_env_unreadable_file (path_join instr_env_unreadable_file ''/ws'' ''.clinerules'')
        = Inl (Errno ''EACCES'')"
    by (simp add: instr_example_defs)
  have gone: "fileExistsAtPath instr_env_unreadable_file (path_join instr_env_unreadable_file ''/ws'' ''.cursorrules'')
        = Inr True
      \<and> isDirectory instr_env_unreadable_file (path_join instr_env_unreadable_file ''/ws'' ''.cursorrules'')
        = Inr False
      \<and> readFile instr_env_unreadable_file (path_join instr_env_unreadable_file ''/ws'' ''.cursorrules'')
        = Inl (Errno ''ENOENT'')"
    by (simp add: instr_example_defs)
  have dir: "fileExistsAtPath instr_env_unreadable_dir (path_join instr_env_unreadable_dir ''/ws'' ''.clinerules'')
        = Inr True
      \<and> isDirectory instr_env_unreadable_dir (path_join instr_env_unreadable_dir ''/ws'' ''.clinerules'')
        = Inr True
      \<and> readRulesDirectory instr_env_unreadable_dir ''.clinerules'' ''/ws''
          (path_join instr_env_unreadable_dir ''/ws'' ''.clinerules'') = Inl (Errno ''EACCES'')"
    by (simp add: readRulesDirectory_def instr_example_defs)
  have a: "safeReadFile instr_env_unreadable_file ''.clinerules'' ''/ws'' = Inl (Errno ''EACCES'')"
    using denied
      safeReadFile_error_policy [of instr_env_unreadable_file "''/ws''" "''.clinerules''"
        "Errno ''EACCES''" "[]" "[]"]
    by simp
  have b: "loadRuleFiles instr_env_unreadable_file ''/ws'' = Inl (Errno ''EACCES'')"
    using a
      safeReadFile_error_policy [of instr_env_unreadable_file "''/ws''" "''.clinerules''"
        "Errno ''EACCES''" "[]" "[]"]
    by simp
  have c: "safeReadFile instr_env_unreadable_file ''.cursorrules'' ''/ws'' = Inr []"
    using gone
      safeReadFile_error_policy [of instr_env_unreadable_file "''/ws''" "''.cursorrules''"
        "Errno ''ENOENT''" "[]" "[]"]
    by simp
  have d: "safeReadFile instr_env_unreadable_dir ''.clinerules'' ''/ws'' = Inr []"
    using dir
      safeReadFile_error_policy [of instr_env_unreadable_dir "''/ws''" "''.clinerules''"
        "Errno ''EACCES''" "[]" "[]"]
    by simp
  from a b c d show ?thesis by simp
qed

text \<open>
  What a rules directory contributes when every listed regular file can be read
  under its base name resolved against the directory: one block per file, labelled
  with that resolved path, joined by blank lines under the directory's heading.
\<close>

lemma readRuleFiles_readable:
  assumes "\<forall>f \<in> set files. \<exists>c. readFile env (path_resolve env filePath f) = Inr c"
  shows "readRuleFiles env filePath files =
     Inr (map (\<lambda>f. path_resolve env filePath f @ '':\<newline>''
                    @ trim (projr (readFile env (path_resolve env filePath f)))) files)"
  using assms
proof (induction files)
  case Nil
  show ?case by simp
next
  case (Cons f fs)
  then obtain c where c: "readFile env (path_resolve env filePath f) = Inr c"
    by auto
  from Cons have "readRuleFiles env filePath fs =
     Inr (map (\<lambda>f. path_resolve env filePath f @ '':\<newline>''
                    @ trim (projr (readFile env (path_resolve env filePath f)))) fs)"
    by simp
  with c show ?case by (simp add: Let_def)
qed

lemma rules_directory_block:
  assumes "fileExistsAtPath env (path_join env cwd file) = Inr True"
    and "isDirectory env (path_join env cwd file) = Inr True"
    and "readdir env (path_join env cwd file) = Inr entries"
    and "\<forall>f \<in> set (map (\<lambda>d. path_resolve env (path_join env cwd file) (dirent_name d))
                       (filter dirent_isFile entries)).
           \<exists>c. readFile env (path_resolve env (path_join env cwd file) f) = Inr c"
  shows "safeReadFile env file cwd =
     Inr (''# '' @ file @ ''/\<newline>\<newline>The following is provided by a root-level '' @ file
          @ ''/ directory where the user has specified instructions for this working directory (''
          @ path_posix_join env cwd @ '')\<newline>\<newline>''
          @ js_join ''\<newline>\<newline>''
              (map (\<lambda>f. path_resolve env (path_join env cwd file) f @ '':\<newline>''
                          @ trim (projr (readFile env (path_resolve env (path_join env cwd file) f))))
                 (map (\<lambda>d. path_resolve env (path_join env cwd file) (dirent_name d))
                    (filter dirent_isFile entries))))"
proof -
  have dir: "readRulesDirectory env file cwd (path_join env cwd file) =
     Inr (''# '' @ file @ ''/\<newline>\<newline>The following is provided by a root-level '' @ file
          @ ''/ directory where the user has specified instructions for this working directory (''
          @ path_posix_join env cwd @ '')\<newline>\<newline>''
          @ js_join ''\<newline>\<newline>''
              (map (\<lambda>f. path_resolve env (path_join env cwd file) f @ '':\<newline>''
                          @ trim (projr (readFile env (path_resolve env (path_join env cwd file) f))))
                 (map (\<lambda>d. path_resolve env (path_join env cwd file) (dirent_name d))
                    (filter dirent_isFile entries))))"
    unfolding readRulesDirectory_def assms(3)
    by (simp add: readRuleFiles_readable [OF assms(4)] Let_def)
  show ?thesis
    unfolding safeReadFile_def Let_def assms(1) assms(2) dir by simp
qed

end
